theory Spec2Isabelle
  imports Main "HOL-Library.Monad_Syntax"
begin

section \<open>Go library functions the client calls\<close>

text \<open>
  Go strings are byte sequences; they are modelled as \<open>string\<close> (a list of bytes).
  Go's \<open>int\<close> is modelled as \<open>int\<close>: the client only compares integers with constants
  and prints them, it never does arithmetic on them, so no wrap-around can occur.
\<close>

subsection \<open>strconv.Itoa, strings.ToLower\<close>

definition digit_char :: "nat \<Rightarrow> char" where
  "digit_char d = ''0123456789'' ! d"

fun digits :: "nat \<Rightarrow> string" where
  "digits n = (if n < 10 then [digit_char n] else digits (n div 10) @ [digit_char (n mod 10)])"

declare digits.simps [simp del]

definition Itoa :: "int \<Rightarrow> string" where
  "Itoa i = (if i < 0 then CHR ''-'' # digits (nat (- i)) else digits (nat i))"

definition upper_letters :: string where
  "upper_letters = ''ABCDEFGHIJKLMNOPQRSTUVWXYZ''"

definition lower_letters :: string where
  "lower_letters = ''abcdefghijklmnopqrstuvwxyz''"

definition is_upper :: "char \<Rightarrow> bool" where
  "is_upper c = (c \<in> set upper_letters)"

definition is_lower :: "char \<Rightarrow> bool" where
  "is_lower c = (c \<in> set lower_letters)"

definition is_digit :: "char \<Rightarrow> bool" where
  "is_digit c = (c \<in> set ''0123456789'')"

definition lower_char :: "char \<Rightarrow> char" where
  "lower_char c = (case map_of (zip upper_letters lower_letters) c of Some l \<Rightarrow> l | None \<Rightarrow> c)"

text \<open>
  \<open>strings.ToLower\<close> on a string of ASCII bytes maps \<open>A..Z\<close> to \<open>a..z\<close> and leaves the
  other bytes as they are. (For bytes above 127, Go decodes UTF-8 and consults its
  Unicode tables; those are not part of this model, which leaves such bytes unchanged.)
\<close>

definition ToLower :: "string \<Rightarrow> string" where
  "ToLower s = map lower_char s"

subsection \<open>url.Values: Set, Add, Encode\<close>

text \<open>
  \<open>url.Values\<close> is a \<open>map[string][]string\<close>. It is modelled as an association list
  with at most one entry per key; \<open>Encode\<close> sorts by key, so the order of the entries
  in the list is never observed.
\<close>

type_synonym Values = "(string \<times> string list) list"

fun Values_Set :: "Values \<Rightarrow> string \<Rightarrow> string \<Rightarrow> Values" where
  "Values_Set [] k v = [(k, [v])]"
| "Values_Set ((k', vs) # q) k v =
     (if k' = k then (k, [v]) # q else (k', vs) # Values_Set q k v)"

fun Values_Add :: "Values \<Rightarrow> string \<Rightarrow> string \<Rightarrow> Values" where
  "Values_Add [] k v = [(k, [v])]"
| "Values_Add ((k', vs) # q) k v =
     (if k' = k then (k, vs @ [v]) # q else (k', vs) # Values_Add q k v)"

text \<open>Go compares strings byte by byte.\<close>

fun string_less :: "string \<Rightarrow> string \<Rightarrow> bool" where
  "string_less [] [] = False"
| "string_less [] (b # bs) = True"
| "string_less (a # as) [] = False"
| "string_less (a # as) (b # bs) =
     ((of_char a :: nat) < of_char b \<or> (a = b \<and> string_less as bs))"

fun insert_key :: "string \<times> string list \<Rightarrow> Values \<Rightarrow> Values" where
  "insert_key e [] = [e]"
| "insert_key e (e' # q) =
     (if string_less (fst e') (fst e) then e' # insert_key e q else e # e' # q)"

definition sort_keys :: "Values \<Rightarrow> Values" where
  "sort_keys q = foldr insert_key q []"

definition hex_char :: "nat \<Rightarrow> char" where
  "hex_char d = ''0123456789ABCDEF'' ! d"

text \<open>
  \<open>url.QueryEscape\<close>: letters, digits and \<open>- _ . ~\<close> stay, a space becomes \<open>+\<close>, every
  other byte becomes \<open>%XX\<close> with upper-case hexadecimal digits.
\<close>

definition unreserved :: "char \<Rightarrow> bool" where
  "unreserved c = (is_lower c \<or> is_upper c \<or> is_digit c
      \<or> c = CHR ''-'' \<or> c = CHR ''_'' \<or> c = CHR ''.'' \<or> c = CHR ''~'')"

definition escape_char :: "char \<Rightarrow> string" where
  "escape_char c =
     (if unreserved c then [c]
      else if c = CHR '' '' then ''+''
      else [CHR ''%'', hex_char ((of_char c :: nat) div 16), hex_char ((of_char c :: nat) mod 16)])"

definition QueryEscape :: "string \<Rightarrow> string" where
  "QueryEscape s = concat (map escape_char s)"

fun join_amp :: "string list \<Rightarrow> string" where
  "join_amp [] = []"
| "join_amp [p] = p"
| "join_amp (p # ps) = p @ ''&'' @ join_amp ps"

definition encode_entry :: "string \<times> string list \<Rightarrow> string list" where
  "encode_entry e = map (\<lambda>v. QueryEscape (fst e) @ ''='' @ QueryEscape v) (snd e)"

definition Values_Encode :: "Values \<Rightarrow> string" where
  "Values_Encode q = join_amp (concat (map encode_entry (sort_keys q)))"

subsection \<open>url.Parse, URL.Query, URL.String\<close>

record URL =
  Scheme :: string
  Host :: string
  Path :: string
  RawQuery :: string
  Fragment :: string

definition is_ctl :: "char \<Rightarrow> bool" where
  "is_ctl c = ((of_char c :: nat) < 32 \<or> (of_char c :: nat) = 127)"

text \<open>\<open>strings.Cut\<close>: the text before and after the first occurrence of a byte.\<close>

definition strings_Cut :: "char \<Rightarrow> string \<Rightarrow> string \<times> string" where
  "strings_Cut c s = (takeWhile (\<lambda>x. x \<noteq> c) s, drop 1 (dropWhile (\<lambda>x. x \<noteq> c) s))"

fun scan_scheme :: "nat \<Rightarrow> string \<Rightarrow> string \<Rightarrow> (string \<times> string) option" where
  "scan_scheme i raw [] = Some ([], raw)"
| "scan_scheme i raw (c # cs) =
     (if is_lower c \<or> is_upper c then scan_scheme (Suc i) raw cs
      else if is_digit c \<or> c = CHR ''+'' \<or> c = CHR ''-'' \<or> c = CHR ''.'' then
        (if i = 0 then Some ([], raw) else scan_scheme (Suc i) raw cs)
      else if c = CHR '':'' then (if i = 0 then None else Some (take i raw, cs))
      else Some ([], raw))"

definition getScheme :: "string \<Rightarrow> (string \<times> string) option" where
  "getScheme raw = scan_scheme 0 raw raw"

text \<open>
  \<open>url.Parse\<close> rejects a string with an ASCII control byte, a string that starts with a
  colon, and a relative reference whose first path segment has a colon. It cuts the
  fragment and the query off and splits \<open>scheme://host/path\<close>. The further checks of
  net/url (user information, port and host syntax, percent escapes in the path) are not
  modelled; the client only ever parses its own base URL followed by a fixed path.
\<close>

definition url_Parse :: "string \<Rightarrow> URL option" where
  "url_Parse rawURL =
     (if list_ex is_ctl rawURL then None
      else case getScheme (fst (strings_Cut CHR ''#'' rawURL)) of
        None \<Rightarrow> None
      | Some (scheme, rest0) \<Rightarrow>
          (let rest = fst (strings_Cut CHR ''?'' rest0);
               query = snd (strings_Cut CHR ''?'' rest0);
               frag = snd (strings_Cut CHR ''#'' rawURL)
           in if take 2 rest = ''//'' then
                Some \<lparr>Scheme = ToLower scheme,
                      Host = takeWhile (\<lambda>x. x \<noteq> CHR ''/'') (drop 2 rest),
                      Path = dropWhile (\<lambda>x. x \<noteq> CHR ''/'') (drop 2 rest),
                      RawQuery = query, Fragment = frag\<rparr>
              else if scheme = [] \<and> take 1 rest \<noteq> ''/''
                      \<and> CHR '':'' \<in> set (fst (strings_Cut CHR ''/'' rest)) then None
              else Some \<lparr>Scheme = ToLower scheme, Host = [], Path = rest,
                         RawQuery = query, Fragment = frag\<rparr>))"

text \<open>\<open>URL.String\<close> for a URL with a host (an opaque URL is not modelled).\<close>

definition URL_String :: "URL \<Rightarrow> string" where
  "URL_String u =
     (if Scheme u = [] then [] else Scheme u @ '':'')
     @ (if Scheme u \<noteq> [] \<or> Host u \<noteq> [] then ''//'' @ Host u else [])
     @ Path u
     @ (if RawQuery u = [] then [] else ''?'' @ RawQuery u)
     @ (if Fragment u = [] then [] else ''#'' @ Fragment u)"

fun split_on :: "char \<Rightarrow> string \<Rightarrow> string list" where
  "split_on c [] = [[]]"
| "split_on c (x # xs) =
     (if x = c then [] # split_on c xs
      else case split_on c xs of [] \<Rightarrow> [[x]] | p # ps \<Rightarrow> (x # p) # ps)"

definition unhex :: "char \<Rightarrow> nat option" where
  "unhex c = map_of (zip ''0123456789ABCDEFabcdef''
       [0, 1, 2, 3, 4, 5, 6, 7, 8, 9, 10, 11, 12, 13, 14, 15, 10, 11, 12, 13, 14, 15]) c"

fun QueryUnescape :: "string \<Rightarrow> string option" where
  "QueryUnescape [] = Some []"
| "QueryUnescape (c # cs) =
     (if c = CHR ''%'' then
        (case cs of
           a # b # rest \<Rightarrow>
             (case (unhex a, unhex b, QueryUnescape rest) of
                (Some h, Some l, Some r) \<Rightarrow> Some (char_of (16 * h + l) # r)
              | _ \<Rightarrow> None)
         | _ \<Rightarrow> None)
      else map_option (\<lambda>r. (if c = CHR ''+'' then CHR '' '' else c) # r) (QueryUnescape cs))"

text \<open>
  \<open>url.ParseQuery\<close> as \<open>URL.Query\<close> uses it: a pair that cannot be decoded is dropped
  and the error is discarded.
\<close>

definition parse_pair :: "Values \<Rightarrow> string \<Rightarrow> Values" where
  "parse_pair m kv =
     (if CHR '';'' \<in> set kv \<or> kv = [] then m
      else case (QueryUnescape (fst (strings_Cut CHR ''='' kv)), QueryUnescape (snd (strings_Cut CHR ''='' kv))) of
        (Some k, Some v) \<Rightarrow> Values_Add m k v
      | _ \<Rightarrow> m)"

definition URL_Query :: "URL \<Rightarrow> Values" where
  "URL_Query u = foldl parse_pair [] (split_on CHR ''&'' (RawQuery u))"

section \<open>JSON values and decoding into Go structs\<close>

text \<open>
  A response body is represented by the JSON value that \<open>encoding/json\<close> reads from it,
  or by \<open>None\<close> when the body is not valid JSON (the decoder then returns a syntax
  error). Numbers are integers: the fields modelled below are integer fields.
\<close>

datatype json =
    JNull
  | JBool bool
  | JNum int
  | JStr string
  | JArr "json list"
  | JObj "(string \<times> json) list"

text \<open>
  A member of an object is matched with a struct field by its key, ignoring case; when
  a key occurs twice the last member is taken. An absent member and \<open>null\<close> leave the
  field at its zero value; a value of the wrong JSON type makes \<open>Decode\<close> return an
  error (\<open>None\<close> below).
\<close>

definition lookup_field :: "(string \<times> json) list \<Rightarrow> string \<Rightarrow> json" where
  "lookup_field ms k =
     (case filter (\<lambda>m. ToLower (fst m) = ToLower k) ms of
        [] \<Rightarrow> JNull
      | m # ms' \<Rightarrow> snd (last (m # ms')))"

definition as_int :: "json \<Rightarrow> int option" where
  "as_int j = (case j of
       JNull \<Rightarrow> Some 0
     | JNum n \<Rightarrow> if - (2 ^ 63) \<le> n \<and> n < 2 ^ 63 then Some n else None
     | _ \<Rightarrow> None)"

definition as_string :: "json \<Rightarrow> string option" where
  "as_string j = (case j of JNull \<Rightarrow> Some [] | JStr s \<Rightarrow> Some s | _ \<Rightarrow> None)"

definition as_bool :: "json \<Rightarrow> bool option" where
  "as_bool j = (case j of JNull \<Rightarrow> Some False | JBool b \<Rightarrow> Some b | _ \<Rightarrow> None)"

fun those_opt :: "'a option list \<Rightarrow> 'a list option" where
  "those_opt [] = Some []"
| "those_opt (None # xs) = None"
| "those_opt (Some x # xs) = map_option (\<lambda>r. x # r) (those_opt xs)"

definition as_slice :: "(json \<Rightarrow> 'a option) \<Rightarrow> json \<Rightarrow> 'a list option" where
  "as_slice f j = (case j of
       JNull \<Rightarrow> Some []
     | JArr xs \<Rightarrow> those_opt (map f xs)
     | _ \<Rightarrow> None)"

definition as_pointer :: "(json \<Rightarrow> 'a option) \<Rightarrow> json \<Rightarrow> 'a option option" where
  "as_pointer f j = (case j of JNull \<Rightarrow> Some None | _ \<Rightarrow> map_option Some (f j))"

section \<open>The client: errors, session, transport\<close>

text \<open>
  The package-level error values of shows.go (the first six constructors), an error value
  returned by the Go library (transport, JSON decoder, URL parser), named by its origin,
  and the errors built with \<open>fmt.Errorf\<close> (format string and arguments; an \<open>ArgError\<close>
  argument is printed as the text of the error).
\<close>

text \<open>
  Modelled from the spec: four error values that shows.go uses or receives are declared
  in files that are not among the sources. \<open>errURLParsing\<close> is the "malformed base URL"
  validation error; \<open>ServiceError\<close> is the "service error" condition of \<open>decode\<close>,
  "carrying one or more (code, text) pairs"; \<open>MalformedResponse\<close> is its "malformed
  response" condition; \<open>errNoEpisodesFound\<close> is the empty-result error of the episodes
  ("no episodes").
\<close>

datatype error =
    errNoShowsFound
  | errNoCharactersFound
  | errNoVideosFound
  | errNoSingleIDUsed
  | errIDNotProperlySet
  | errInvalidNote
  | LibraryError string
  | Errorf string "errorf_arg list"
  | errURLParsing
  | ServiceError "(int \<times> string) list"
  | MalformedResponse
  | errNoEpisodesFound
and errorf_arg = ArgString string | ArgError error

text \<open>The texts given to \<open>errors.New\<close> in shows.go.\<close>

definition sentinel_text :: "error \<Rightarrow> string option" where
  "sentinel_text e = (case e of
       errNoShowsFound \<Rightarrow> Some ''no shows found''
     | errNoCharactersFound \<Rightarrow> Some ''no characters found''
     | errNoVideosFound \<Rightarrow> Some ''no videos found''
     | errNoSingleIDUsed \<Rightarrow> Some ''no single id used''
     | errIDNotProperlySet \<Rightarrow> Some ''id not properly set''
     | errInvalidNote \<Rightarrow> Some ''invalid note''
     | _ \<Rightarrow> None)"

text \<open>
  What a call that may end the process does: it returns, or \<open>log.Fatal\<close> prints a
  message (given as the error with that text) and exits, or a run-time panic ends it.
\<close>

datatype 'a outcome = Return 'a | Fatal error | Panic string

record apiError =
  Code :: int
  Text :: string

record errAPI =
  Errors :: "apiError list"

record token =
  User_ID :: int
  User_Login :: string
  User_InAccount :: bool
  Token :: string
  Hash :: string
  token_Errors :: "json list"

record BetaSeries =
  baseURL :: string
  version :: string
  key :: string
  token :: "token option"

record request =
  Method :: string
  Target :: URL
  Header :: "(string \<times> string) list"

record response =
  StatusCode :: nat
  Body :: "json option"

text \<open>The outside world: what \<open>http.DefaultClient.Do\<close> answers to a request.\<close>

record world =
  Http :: "request \<Rightarrow> error + response"

definition bsBaseURL :: string where
  "bsBaseURL = ''https://api.betaseries.com''"

definition bsVersion :: string where
  "bsVersion = ''2.4''"

subsection \<open>net/http: header keys and NewRequest\<close>

definition upper_char :: "char \<Rightarrow> char" where
  "upper_char c = (case map_of (zip lower_letters upper_letters) c of Some l \<Rightarrow> l | None \<Rightarrow> c)"

fun canonical :: "bool \<Rightarrow> string \<Rightarrow> string" where
  "canonical up [] = []"
| "canonical up (c # cs) =
     (if up then upper_char c else lower_char c) # canonical (c = CHR ''-'') cs"

text \<open>\<open>Header.Set\<close> stores the value under the canonical form of the key.\<close>

fun assoc_set :: "(string \<times> string) list \<Rightarrow> string \<Rightarrow> string \<Rightarrow> (string \<times> string) list" where
  "assoc_set [] k v = [(k, v)]"
| "assoc_set ((k', v') # h) k v =
     (if k' = k then (k, v) # h else (k', v') # assoc_set h k v)"

definition Header_Set :: "request \<Rightarrow> string \<Rightarrow> string \<Rightarrow> request" where
  "Header_Set req k v = req\<lparr>Header := assoc_set (Header req) (canonical True k) v\<rparr>"

definition is_token_char :: "char \<Rightarrow> bool" where
  "is_token_char c = (is_lower c \<or> is_upper c \<or> is_digit c \<or> c \<in> set ''!#$%&*+-.^_`|~'' \<or> c = CHR 0x27)"

definition http_NewRequest :: "string \<Rightarrow> string \<Rightarrow> error + request" where
  "http_NewRequest method urlStr =
     (if method = [] \<or> \<not> list_all is_token_char method then
        Inl (LibraryError ''net/http: invalid method'')
      else case url_Parse urlStr of
        None \<Rightarrow> Inl (LibraryError ''net/url: parse'')
      | Some u \<Rightarrow> Inr \<lparr>Method = method, Target = u, Header = []\<rparr>)"

section \<open>The session and the credential exchange (package file with NewBetaseriesClient)\<close>

definition unmarshal_apiError :: "json \<Rightarrow> apiError option" where
  "unmarshal_apiError j = (case j of
       JNull \<Rightarrow> Some \<lparr>Code = 0, Text = []\<rparr>
     | JObj ms \<Rightarrow>
         (case (as_int (lookup_field ms ''code''), as_string (lookup_field ms ''text'')) of
            (Some c, Some t) \<Rightarrow> Some \<lparr>Code = c, Text = t\<rparr>
          | _ \<Rightarrow> None)
     | _ \<Rightarrow> None)"

definition unmarshal_errAPI :: "json \<Rightarrow> errAPI option" where
  "unmarshal_errAPI j = (case j of
       JNull \<Rightarrow> Some \<lparr>Errors = []\<rparr>
     | JObj ms \<Rightarrow> map_option (\<lambda>es. \<lparr>Errors = es\<rparr>)
                   (as_slice unmarshal_apiError (lookup_field ms ''errors''))
     | _ \<Rightarrow> None)"

definition unmarshal_token :: "json \<Rightarrow> token option" where
  "unmarshal_token j = (case j of
       JNull \<Rightarrow> Some \<lparr>User_ID = 0, User_Login = [], User_InAccount = False,
                       Token = [], Hash = [], token_Errors = []\<rparr>
     | JObj ms \<Rightarrow>
         (case (case lookup_field ms ''user'' of
                  JNull \<Rightarrow> Some (0, [], False)
                | JObj us \<Rightarrow>
                    (case (as_int (lookup_field us ''id''), as_string (lookup_field us ''login''),
                           as_bool (lookup_field us ''in_account'')) of
                       (Some i, Some l, Some a) \<Rightarrow> Some (i, l, a)
                     | _ \<Rightarrow> None)
                | _ \<Rightarrow> None,
                as_string (lookup_field ms ''token''), as_string (lookup_field ms ''hash''),
                as_slice Some (lookup_field ms ''errors'')) of
            (Some (i, l, a), Some t, Some h, Some es) \<Rightarrow>
              Some \<lparr>User_ID = i, User_Login = l, User_InAccount = a,
                    Token = t, Hash = h, token_Errors = es\<rparr>
          | _ \<Rightarrow> None)
     | _ \<Rightarrow> None)"

text \<open>\<open>(*errAPI).Error\<close>: the texts, each followed by a newline.\<close>

definition errAPI_Error :: "errAPI \<Rightarrow> string" where
  "errAPI_Error e = concat (map (\<lambda>x. Text x @ [CHR 0x0A]) (Errors e))"

definition getToken :: "BetaSeries \<Rightarrow> error + string" where
  "getToken bs = (case token bs of
       Some t \<Rightarrow> Inr (Token t)
     | None \<Rightarrow> Inl (Errorf ''no token'' []))"

text \<open>
  \<open>do\<close> sets the headers and hands the request to the default HTTP client. The model
  returns the request as it was sent together with the answer.
\<close>

definition do_req :: "world \<Rightarrow> BetaSeries \<Rightarrow> request \<Rightarrow> request \<times> (error + response)" where
  "do_req w bs req =
     (let r1 = Header_Set req ''Accept'' ''application/json'';
          r2 = Header_Set r1 ''X-BetaSeries-Version'' (version bs);
          r3 = Header_Set r2 ''X-BetaSeries-Key'' (key bs);
          r4 = (case token bs of
                  Some t \<Rightarrow> Header_Set r3 ''X-BetaSeries-Token'' (Token t)
                | None \<Rightarrow> r3)
      in (r4, Http w r4))"

text \<open>
  \<open>decodeErr\<close> decodes into a pointer to a pointer: the JSON value \<open>null\<close> sets the
  \<open>*errAPI\<close> to nil (\<open>None\<close>). A decoding error ends the process through \<open>log.Fatalf\<close>.
\<close>

definition decodeErr :: "json option \<Rightarrow> errAPI option outcome" where
  "decodeErr r =
     (case (case r of None \<Rightarrow> None | Some j \<Rightarrow> as_pointer unmarshal_errAPI j) of
        None \<Rightarrow> Fatal (Errorf ''Error decoding API error : %v''
                         [ArgError (LibraryError ''encoding/json'')])
      | Some err \<Rightarrow> Return err)"

text \<open>
  \<open>retrieveToken\<close> returns the requests it sent, and the session (whose token it may
  have set) with the error it returns, unless the process ended. The digest
  \<open>fmt.Sprintf("%x", md5.Sum(...))\<close> is a parameter, \<open>md5hex\<close>.
\<close>

definition retrieveToken ::
  "(string \<Rightarrow> string) \<Rightarrow> world \<Rightarrow> BetaSeries \<Rightarrow> string \<Rightarrow> string
     \<Rightarrow> request list \<times> (BetaSeries \<times> error option) outcome"
where
  "retrieveToken md5hex w bs login password =
     (if length login = 0 \<or> length password = 0 then ([], Return (bs, None))
      else case url_Parse (baseURL bs @ ''/members/auth'') of
        None \<Rightarrow> ([], Fatal (LibraryError ''net/url: parse''))
      | Some u0 \<Rightarrow>
          (let q0 = URL_Query u0;
               q1 = Values_Set q0 ''login'' login;
               q2 = Values_Set q1 ''password'' (md5hex password);
               u = u0\<lparr>RawQuery := Values_Encode q2\<rparr>
           in case http_NewRequest ''POST'' (URL_String u) of
                Inl err \<Rightarrow>
                  ([], Return (bs, Some (Errorf (''Error creating request for %s: %v'' @ [CHR 0x0A])
                                          [ArgString (URL_String u), ArgError err])))
              | Inr req \<Rightarrow>
                  (case do_req w bs req of
                     (sent, Inl err) \<Rightarrow>
                       ([sent], Return (bs, Some (Errorf (''Error getting token :%v'' @ [CHR 0x0A])
                                                    [ArgError err])))
                   | (sent, Inr resp) \<Rightarrow>
                       if StatusCode resp \<noteq> 200 then
                         (case decodeErr (Body resp) of
                            Fatal m \<Rightarrow> ([sent], Fatal m)
                          | Panic m \<Rightarrow> ([sent], Panic m)
                          | Return None \<Rightarrow>
                              ([sent], Panic ''invalid memory address or nil pointer dereference'')
                          | Return (Some e) \<Rightarrow>
                              ([sent], Return (bs, Some (Errorf (errAPI_Error e) []))))
                       else
                         (case (case Body resp of None \<Rightarrow> None | Some j \<Rightarrow> unmarshal_token j) of
                            None \<Rightarrow>
                              ([sent], Return (bs, Some (Errorf (''Error decoding token response :%v'' @ [CHR 0x0A])
                                                           [ArgError (LibraryError ''encoding/json'')])))
                          | Some tokenData \<Rightarrow>
                              ([sent], Return (bs\<lparr>token := Some tokenData\<rparr>, None))))))"

definition NewBetaseriesClient ::
  "(string \<Rightarrow> string) \<Rightarrow> world \<Rightarrow> string \<Rightarrow> string \<Rightarrow> string
     \<Rightarrow> request list \<times> (BetaSeries \<times> error option) outcome"
where
  "NewBetaseriesClient md5hex w k login password =
     retrieveToken md5hex w \<lparr>baseURL = bsBaseURL, version = bsVersion, key = k, token = None\<rparr>
       login password"

section \<open>Show endpoints (shows.go)\<close>

text \<open>
  Of the \<open>Show\<close> struct the model keeps the fields that shows.go marks as used by both
  the shows and the episodes endpoints; the descriptive fields that follow them in the
  struct are decoded in the same way and no function of the package reads them.
\<close>

record Show =
  Show_ID :: int
  Show_ThetvdbID :: int
  Show_ImdbID :: string
  Show_Title :: string

text \<open>The struct \<open>shows\<close> (the name is a keyword of Isabelle, hence \<open>shows_t\<close>).\<close>

record shows_t =
  Shows :: "Show list"
  shows_Errors :: "json list"

record showItem =
  showItem_Show :: "Show option"
  showItem_Errors :: "json list"

record Similar =
  Similar_ID :: int
  Similar_Login :: string
  Similar_LoginID :: int
  Similar_Notes :: string
  Similar_ShowTitle :: string
  Similar_ShowID :: int
  Similar_ThetvdbID :: int
  Similar_Show :: Show

record similars =
  Similars :: "Similar list"
  similars_Errors :: "json list"

record Character =
  Character_ID :: int
  Character_ShowID :: int
  Character_Name :: string
  Character_Role :: string
  Character_Actor :: string
  Character_Picture :: string
  Character_Description :: string

record characters =
  Characters :: "Character list"

record Video =
  Video_ID :: int
  Video_ShowID :: int
  Video_YoutubeID :: string
  Video_YoutubeURL :: string
  Video_Title :: string
  Video_Season :: int
  Video_Episode :: int
  Video_Login :: string
  Video_LoginID :: int

record videos =
  Videos :: "Video list"
  videos_Errors :: "json list"

definition unmarshal_Show :: "json \<Rightarrow> Show option" where
  "unmarshal_Show j = (case j of
       JNull \<Rightarrow> Some \<lparr>Show_ID = 0, Show_ThetvdbID = 0, Show_ImdbID = [], Show_Title = []\<rparr>
     | JObj ms \<Rightarrow> do {
         i \<leftarrow> as_int (lookup_field ms ''id'');
         t \<leftarrow> as_int (lookup_field ms ''thetvdb_id'');
         m \<leftarrow> as_string (lookup_field ms ''imdb_id'');
         n \<leftarrow> as_string (lookup_field ms ''title'');
         Some \<lparr>Show_ID = i, Show_ThetvdbID = t, Show_ImdbID = m, Show_Title = n\<rparr> }
     | _ \<Rightarrow> None)"

definition unmarshal_shows :: "json \<Rightarrow> shows_t option" where
  "unmarshal_shows j = (case j of
       JNull \<Rightarrow> Some \<lparr>Shows = [], shows_Errors = []\<rparr>
     | JObj ms \<Rightarrow> do {
         xs \<leftarrow> as_slice unmarshal_Show (lookup_field ms ''shows'');
         es \<leftarrow> as_slice Some (lookup_field ms ''errors'');
         Some \<lparr>Shows = xs, shows_Errors = es\<rparr> }
     | _ \<Rightarrow> None)"

definition unmarshal_showItem :: "json \<Rightarrow> showItem option" where
  "unmarshal_showItem j = (case j of
       JNull \<Rightarrow> Some \<lparr>showItem_Show = None, showItem_Errors = []\<rparr>
     | JObj ms \<Rightarrow> do {
         x \<leftarrow> as_pointer unmarshal_Show (lookup_field ms ''show'');
         es \<leftarrow> as_slice Some (lookup_field ms ''errors'');
         Some \<lparr>showItem_Show = x, showItem_Errors = es\<rparr> }
     | _ \<Rightarrow> None)"

definition unmarshal_Similar :: "json \<Rightarrow> Similar option" where
  "unmarshal_Similar j = (case j of
       JNull \<Rightarrow> Some \<lparr>Similar_ID = 0, Similar_Login = [], Similar_LoginID = 0, Similar_Notes = [],
                       Similar_ShowTitle = [], Similar_ShowID = 0, Similar_ThetvdbID = 0,
                       Similar_Show = \<lparr>Show_ID = 0, Show_ThetvdbID = 0, Show_ImdbID = [], Show_Title = []\<rparr>\<rparr>
     | JObj ms \<Rightarrow> do {
         i \<leftarrow> as_int (lookup_field ms ''id'');
         l \<leftarrow> as_string (lookup_field ms ''login'');
         li \<leftarrow> as_int (lookup_field ms ''login_id'');
         n \<leftarrow> as_string (lookup_field ms ''notes'');
         st \<leftarrow> as_string (lookup_field ms ''show_title'');
         si \<leftarrow> as_int (lookup_field ms ''show_id'');
         t \<leftarrow> as_int (lookup_field ms ''thetvdb_id'');
         sh \<leftarrow> unmarshal_Show (lookup_field ms ''show'');
         Some \<lparr>Similar_ID = i, Similar_Login = l, Similar_LoginID = li, Similar_Notes = n,
               Similar_ShowTitle = st, Similar_ShowID = si, Similar_ThetvdbID = t,
               Similar_Show = sh\<rparr> }
     | _ \<Rightarrow> None)"

definition unmarshal_similars :: "json \<Rightarrow> similars option" where
  "unmarshal_similars j = (case j of
       JNull \<Rightarrow> Some \<lparr>Similars = [], similars_Errors = []\<rparr>
     | JObj ms \<Rightarrow> do {
         xs \<leftarrow> as_slice unmarshal_Similar (lookup_field ms ''similars'');
         es \<leftarrow> as_slice Some (lookup_field ms ''errors'');
         Some \<lparr>Similars = xs, similars_Errors = es\<rparr> }
     | _ \<Rightarrow> None)"

definition unmarshal_Character :: "json \<Rightarrow> Character option" where
  "unmarshal_Character j = (case j of
       JNull \<Rightarrow> Some \<lparr>Character_ID = 0, Character_ShowID = 0, Character_Name = [],
                       Character_Role = [], Character_Actor = [], Character_Picture = [],
                       Character_Description = []\<rparr>
     | JObj ms \<Rightarrow> do {
         i \<leftarrow> as_int (lookup_field ms ''id'');
         si \<leftarrow> as_int (lookup_field ms ''show_id'');
         n \<leftarrow> as_string (lookup_field ms ''name'');
         r \<leftarrow> as_string (lookup_field ms ''role'');
         a \<leftarrow> as_string (lookup_field ms ''actor'');
         p \<leftarrow> as_string (lookup_field ms ''picture'');
         d \<leftarrow> as_string (lookup_field ms ''description'');
         Some \<lparr>Character_ID = i, Character_ShowID = si, Character_Name = n, Character_Role = r,
               Character_Actor = a, Character_Picture = p, Character_Description = d\<rparr> }
     | _ \<Rightarrow> None)"

definition unmarshal_characters :: "json \<Rightarrow> characters option" where
  "unmarshal_characters j = (case j of
       JNull \<Rightarrow> Some \<lparr>Characters = []\<rparr>
     | JObj ms \<Rightarrow> do {
         xs \<leftarrow> as_slice unmarshal_Character (lookup_field ms ''characters'');
         Some \<lparr>Characters = xs\<rparr> }
     | _ \<Rightarrow> None)"

definition unmarshal_Video :: "json \<Rightarrow> Video option" where
  "unmarshal_Video j = (case j of
       JNull \<Rightarrow> Some \<lparr>Video_ID = 0, Video_ShowID = 0, Video_YoutubeID = [], Video_YoutubeURL = [],
                       Video_Title = [], Video_Season = 0, Video_Episode = 0, Video_Login = [],
                       Video_LoginID = 0\<rparr>
     | JObj ms \<Rightarrow> do {
         i \<leftarrow> as_int (lookup_field ms ''id'');
         si \<leftarrow> as_int (lookup_field ms ''show_id'');
         y \<leftarrow> as_string (lookup_field ms ''youtube_id'');
         yu \<leftarrow> as_string (lookup_field ms ''youtube_url'');
         t \<leftarrow> as_string (lookup_field ms ''title'');
         se \<leftarrow> as_int (lookup_field ms ''season'');
         e \<leftarrow> as_int (lookup_field ms ''episode'');
         l \<leftarrow> as_string (lookup_field ms ''login'');
         li \<leftarrow> as_int (lookup_field ms ''login_id'');
         Some \<lparr>Video_ID = i, Video_ShowID = si, Video_YoutubeID = y, Video_YoutubeURL = yu,
               Video_Title = t, Video_Season = se, Video_Episode = e, Video_Login = l,
               Video_LoginID = li\<rparr> }
     | _ \<Rightarrow> None)"

definition unmarshal_videos :: "json \<Rightarrow> videos option" where
  "unmarshal_videos j = (case j of
       JNull \<Rightarrow> Some \<lparr>Videos = [], videos_Errors = []\<rparr>
     | JObj ms \<Rightarrow> do {
         xs \<leftarrow> as_slice unmarshal_Video (lookup_field ms ''videos'');
         es \<leftarrow> as_slice Some (lookup_field ms ''errors'');
         Some \<lparr>Videos = xs, videos_Errors = es\<rparr> }
     | _ \<Rightarrow> None)"

subsection \<open>Parts of the package that shows.go calls and that are not among the sources\<close>

text \<open>
  Modelled from the spec: the two-argument method \<open>do(method, u)\<close> that shows.go calls
  is missing. The session "attaches required headers to every outgoing request" and
  an endpoint "performs exactly one HTTP round trip": the request for \<open>method\<close> and
  \<open>u\<close> is given the headers of the one-argument \<open>do\<close> and sent once.
\<close>

definition do_url :: "world \<Rightarrow> BetaSeries \<Rightarrow> string \<Rightarrow> URL \<Rightarrow> request list \<times> (error + response)" where
  "do_url w bs method u =
     (case do_req w bs \<lparr>Method = method, Target = u, Header = []\<rparr> of
        (sent, r) \<Rightarrow> ([sent], r))"

text \<open>
  Modelled from the spec: the method \<open>decode(target, resp, usedAPI, rawQuery)\<close> is
  missing. It "parses the body as JSON into the envelope shape appropriate to the
  call"; "if the JSON body itself cannot be parsed, fail with a malformed response
  condition"; "if the embedded error list is non-empty, discard any decoded payload
  and fail with a service error condition carrying the concatenated human-readable
  messages and associated codes". The target's type is given by its decoding function.
\<close>

definition decode :: "(json \<Rightarrow> 'a option) \<Rightarrow> response \<Rightarrow> string \<Rightarrow> string \<Rightarrow> error + 'a" where
  "decode target resp usedAPI rawQuery =
     (case Body resp of
        None \<Rightarrow> Inl MalformedResponse
      | Some j \<Rightarrow>
          (case (target j, unmarshal_errAPI j) of
             (Some data, Some e) \<Rightarrow>
               if Errors e \<noteq> [] then Inl (ServiceError (map (\<lambda>x. (Code x, Text x)) (Errors e)))
               else Inr data
           | _ \<Rightarrow> Inl MalformedResponse))"

text \<open>
  Modelled from the spec: the \<open>Episode\<close> struct is missing; an episode is kept as the JSON
  object that the service sent.
\<close>

type_synonym Episode = json

definition unmarshal_Episode :: "json \<Rightarrow> Episode option" where
  "unmarshal_Episode j = (case j of
       JNull \<Rightarrow> Some (JObj [])
     | JObj ms \<Rightarrow> Some (JObj ms)
     | _ \<Rightarrow> None)"

record episodes =
  Episodes :: "Episode list"
  episodes_Errors :: "json list"

definition unmarshal_episodes :: "json \<Rightarrow> episodes option" where
  "unmarshal_episodes j = (case j of
       JNull \<Rightarrow> Some \<lparr>Episodes = [], episodes_Errors = []\<rparr>
     | JObj ms \<Rightarrow> do {
         xs \<leftarrow> as_slice unmarshal_Episode (lookup_field ms ''episodes'');
         es \<leftarrow> as_slice Some (lookup_field ms ''errors'');
         Some \<lparr>Episodes = xs, episodes_Errors = es\<rparr> }
     | _ \<Rightarrow> None)"

text \<open>
  Modelled from the spec: the method \<open>doGetEpisodes(u, usedAPI)\<close> that \<open>ShowsEpisodes\<close>
  calls is missing. It is a collection endpoint: when "decoding succeeds and no service
  errors were reported, but the target collection field is empty", it fails with the
  "nothing found" condition of its kind, "no episodes".
\<close>

definition doGetEpisodes :: "world \<Rightarrow> BetaSeries \<Rightarrow> URL \<Rightarrow> string \<Rightarrow> request list \<times> (error + Episode list)" where
  "doGetEpisodes w bs u usedAPI =
     (case do_url w bs ''GET'' u of
        (tr, Inl err) \<Rightarrow> (tr, Inl err)
      | (tr, Inr resp) \<Rightarrow>
          (case decode unmarshal_episodes resp usedAPI (RawQuery u) of
             Inl err \<Rightarrow> (tr, Inl err)
           | Inr data \<Rightarrow>
               if length (Episodes data) < 1 then (tr, Inl errNoEpisodesFound)
               else (tr, Inr (Episodes data))))"

subsection \<open>The endpoint functions\<close>

text \<open>
  Every endpoint returns the list of requests it sent together with its Go result
  (\<open>Inl\<close> the error, \<open>Inr\<close> the value).
\<close>

definition doGetShows :: "world \<Rightarrow> BetaSeries \<Rightarrow> URL \<Rightarrow> string \<Rightarrow> request list \<times> (error + Show list)" where
  "doGetShows w bs u usedAPI =
     (case do_url w bs ''GET'' u of
        (tr, Inl err) \<Rightarrow> (tr, Inl err)
      | (tr, Inr resp) \<Rightarrow>
          (case decode unmarshal_shows resp usedAPI (RawQuery u) of
             Inl err \<Rightarrow> (tr, Inl err)
           | Inr data \<Rightarrow>
               if length (Shows data) < 1 then (tr, Inl errNoShowsFound)
               else (tr, Inr (Shows data))))"

definition doGetSimilars :: "world \<Rightarrow> BetaSeries \<Rightarrow> URL \<Rightarrow> request list \<times> (error + Similar list)" where
  "doGetSimilars w bs u =
     (case do_url w bs ''GET'' u of
        (tr, Inl err) \<Rightarrow> (tr, Inl err)
      | (tr, Inr resp) \<Rightarrow>
          (case decode unmarshal_similars resp [] (RawQuery u) of
             Inl err \<Rightarrow> (tr, Inl err)
           | Inr data \<Rightarrow>
               if length (Similars data) < 1 then (tr, Inl errNoShowsFound)
               else (tr, Inr (Similars data))))"

definition ShowsSearch ::
  "world \<Rightarrow> BetaSeries \<Rightarrow> string \<Rightarrow> string \<Rightarrow> bool \<Rightarrow> request list \<times> (error + Show list)"
where
  "ShowsSearch w bs query order summary =
     (let usedAPI = ''/shows/search'' in
      case url_Parse (baseURL bs @ usedAPI) of
        None \<Rightarrow> ([], Inl errURLParsing)
      | Some u \<Rightarrow>
          (let q0 = URL_Query u;
               q1 = Values_Set q0 ''title'' (ToLower query);
               q2 = Values_Set q1 ''nbpp'' ''100'';
               q3 = (if order = ''title'' \<or> order = ''popularity'' \<or> order = ''followers''
                     then Values_Set q2 ''order'' order
                     else Values_Set q2 ''order'' ''popularity'');
               q4 = (if summary then Values_Set q3 ''summary'' ''true'' else q3)
           in doGetShows w bs (u\<lparr>RawQuery := Values_Encode q4\<rparr>) usedAPI))"


definition ShowsFavorites ::
  "world \<Rightarrow> BetaSeries \<Rightarrow> int \<Rightarrow> request list \<times> (error + Show list)"
where
  "ShowsFavorites w bs userID =
     (let usedAPI = ''/shows/favorites'' in
      case url_Parse (baseURL bs @ usedAPI) of
        None \<Rightarrow> ([], Inl errURLParsing)
      | Some u \<Rightarrow>
          (let q0 = URL_Query u;
               q1 = (if userID > 0 then Values_Set q0 ''id'' (Itoa userID) else q0)
           in doGetShows w bs (u\<lparr>RawQuery := Values_Encode q1\<rparr>) usedAPI))"

definition ShowsSimilars ::
  "world \<Rightarrow> BetaSeries \<Rightarrow> int \<Rightarrow> int \<Rightarrow> bool \<Rightarrow> request list \<times> (error + Similar list)"
where
  "ShowsSimilars w bs ident theTvdbID details =
     (let usedAPI = ''/shows/similars'' in
      case url_Parse (baseURL bs @ usedAPI) of
        None \<Rightarrow> ([], Inl errURLParsing)
      | Some u \<Rightarrow>
          (let q0 = URL_Query u in
           if ident > 0 then
             (let q1 = Values_Set q0 ''id'' (Itoa ident);
                  q2 = (if details then Values_Set q1 ''details'' ''true'' else q1)
              in doGetSimilars w bs (u\<lparr>RawQuery := Values_Encode q2\<rparr>))
           else if theTvdbID > 0 then
             (let q1 = Values_Set q0 ''thetvdb_id'' (Itoa theTvdbID);
                  q2 = (if details then Values_Set q1 ''details'' ''true'' else q1)
              in doGetSimilars w bs (u\<lparr>RawQuery := Values_Encode q2\<rparr>))
           else ([], Inl errIDNotProperlySet)))"

definition ShowsCharacters ::
  "world \<Rightarrow> BetaSeries \<Rightarrow> int \<Rightarrow> int \<Rightarrow> request list \<times> (error + Character list)"
where
  "ShowsCharacters w bs ident theTvdbID =
     (let usedAPI = ''/shows/characters'' in
      case url_Parse (baseURL bs @ usedAPI) of
        None \<Rightarrow> ([], Inl errURLParsing)
      | Some u0 \<Rightarrow>
          (let q0 = URL_Query u0 in
           case (if ident > 0 then Inr (Values_Set q0 ''id'' (Itoa ident))
                 else if theTvdbID > 0 then Inr (Values_Set q0 ''thetvdb_id'' (Itoa theTvdbID))
                 else Inl errIDNotProperlySet) of
             Inl err \<Rightarrow> ([], Inl err)
           | Inr q \<Rightarrow>
               (let u = u0\<lparr>RawQuery := Values_Encode q\<rparr> in
                case do_url w bs ''GET'' u of
                  (tr, Inl err) \<Rightarrow> (tr, Inl err)
                | (tr, Inr resp) \<Rightarrow>
                    (case decode unmarshal_characters resp usedAPI (RawQuery u) of
                       Inl err \<Rightarrow> (tr, Inl err)
                     | Inr data \<Rightarrow>
                         if length (Characters data) < 1 then (tr, Inl errNoCharactersFound)
                         else (tr, Inr (Characters data))))))"


definition showUpdate ::
  "world \<Rightarrow> BetaSeries \<Rightarrow> string \<Rightarrow> string \<Rightarrow> int \<Rightarrow> int \<Rightarrow> string \<Rightarrow> int
     \<Rightarrow> request list \<times> (error + Show option)"
where
  "showUpdate w bs method endPoint ident theTvdbID imdbID option =
     (let usedAPI = ''/shows/'' @ endPoint in
      case url_Parse (baseURL bs @ usedAPI) of
        None \<Rightarrow> ([], Inl errURLParsing)
      | Some u0 \<Rightarrow>
          (let q0 = URL_Query u0 in
           case (if ident > 0 then Inr (Values_Set q0 ''id'' (Itoa ident))
                 else if theTvdbID > 0 then Inr (Values_Set q0 ''thetvdb_id'' (Itoa theTvdbID))
                 else if imdbID \<noteq> [] then Inr (Values_Set q0 ''imdb_id'' imdbID)
                 else Inl errIDNotProperlySet) of
             Inl err \<Rightarrow> ([], Inl err)
           | Inr q1 \<Rightarrow>
               (let q2 = (if option > 0 then
                            (if endPoint = ''note'' then Values_Set q1 ''note'' (Itoa option)
                             else if endPoint = ''show'' then Values_Set q1 ''episode_id'' (Itoa option)
                             else q1)
                          else q1);
                    u = u0\<lparr>RawQuery := Values_Encode q2\<rparr>
                in case do_url w bs method u of
                     (tr, Inl err) \<Rightarrow> (tr, Inl err)
                   | (tr, Inr resp) \<Rightarrow>
                       (case decode unmarshal_showItem resp usedAPI (RawQuery u) of
                          Inl err \<Rightarrow> (tr, Inl err)
                        | Inr item \<Rightarrow> (tr, Inr (showItem_Show item))))))"

definition ShowFavorite :: "world \<Rightarrow> BetaSeries \<Rightarrow> int \<Rightarrow> request list \<times> (error + Show option)" where
  "ShowFavorite w bs ident = showUpdate w bs ''POST'' ''favorite'' ident 0 [] 0"

definition ShowFavoriteRemove :: "world \<Rightarrow> BetaSeries \<Rightarrow> int \<Rightarrow> request list \<times> (error + Show option)" where
  "ShowFavoriteRemove w bs ident = showUpdate w bs ''DELETE'' ''favorite'' ident 0 [] 0"


definition ShowAdd ::
  "world \<Rightarrow> BetaSeries \<Rightarrow> int \<Rightarrow> int \<Rightarrow> string \<Rightarrow> int \<Rightarrow> request list \<times> (error + Show option)"
where
  "ShowAdd w bs ident theTvdbID imdbID lastEpisodeID =
     showUpdate w bs ''POST'' ''show'' ident theTvdbID imdbID lastEpisodeID"

definition ShowRemove ::
  "world \<Rightarrow> BetaSeries \<Rightarrow> int \<Rightarrow> int \<Rightarrow> string \<Rightarrow> request list \<times> (error + Show option)"
where
  "ShowRemove w bs ident theTvdbID imdbID = showUpdate w bs ''DELETE'' ''show'' ident theTvdbID imdbID 0"

definition ShowArchive ::
  "world \<Rightarrow> BetaSeries \<Rightarrow> int \<Rightarrow> int \<Rightarrow> request list \<times> (error + Show option)"
where
  "ShowArchive w bs ident theTvdbID = showUpdate w bs ''POST'' ''archive'' ident theTvdbID [] 0"

definition ShowNotArchive ::
  "world \<Rightarrow> BetaSeries \<Rightarrow> int \<Rightarrow> int \<Rightarrow> request list \<times> (error + Show option)"
where
  "ShowNotArchive w bs ident theTvdbID = showUpdate w bs ''DELETE'' ''archive'' ident theTvdbID [] 0"

definition ShowsVideos ::
  "world \<Rightarrow> BetaSeries \<Rightarrow> int \<Rightarrow> int \<Rightarrow> request list \<times> (error + Video list)"
where
  "ShowsVideos w bs ident tvdbID =
     (let usedAPI = ''/shows/videos'' in
      case url_Parse (baseURL bs @ usedAPI) of
        None \<Rightarrow> ([], Inl errURLParsing)
      | Some u0 \<Rightarrow>
          (let q0 = URL_Query u0 in
           case (if ident > 0 \<and> tvdbID > 0 then Inl errNoSingleIDUsed
                 else if ident > 0 then Inr (Values_Set q0 ''id'' (Itoa ident))
                 else if tvdbID > 0 then Inr (Values_Set q0 ''thetvdb_id '' (Itoa tvdbID))
                 else Inl errIDNotProperlySet) of
             Inl err \<Rightarrow> ([], Inl err)
           | Inr q \<Rightarrow>
               (let u = u0\<lparr>RawQuery := Values_Encode q\<rparr> in
                case do_url w bs ''GET'' u of
                  (tr, Inl err) \<Rightarrow> (tr, Inl err)
                | (tr, Inr resp) \<Rightarrow>
                    (case decode unmarshal_videos resp usedAPI (RawQuery u) of
                       Inl err \<Rightarrow> (tr, Inl err)
                     | Inr data \<Rightarrow>
                         if length (Videos data) < 1 then (tr, Inl errNoVideosFound)
                         else (tr, Inr (Videos data))))))"

definition ShowsEpisodes ::
  "world \<Rightarrow> BetaSeries \<Rightarrow> int \<Rightarrow> int \<Rightarrow> int \<Rightarrow> int \<Rightarrow> bool
     \<Rightarrow> request list \<times> (error + Episode list)"
where
  "ShowsEpisodes w bs ident theTvdbID season episode subtitles =
     (let usedAPI = ''/shows/episodes'' in
      case url_Parse (baseURL bs @ usedAPI) of
        None \<Rightarrow> ([], Inl errURLParsing)
      | Some u \<Rightarrow>
          (let q0 = URL_Query u in
           case (if ident > 0 then Inr (Values_Set q0 ''id'' (Itoa ident))
                 else if theTvdbID > 0 then Inr (Values_Set q0 ''thetvdb_id'' (Itoa theTvdbID))
                 else Inl errIDNotProperlySet) of
             Inl err \<Rightarrow> ([], Inl err)
           | Inr q1 \<Rightarrow>
               (let q2 = (if season > 0 then
                            (let qs = Values_Set q1 ''season'' (Itoa season) in
                             if episode > 0 then Values_Set qs ''episode'' (Itoa episode) else qs)
                          else q1);
                    q3 = (if subtitles then Values_Set q2 ''subtitles'' ''true'' else q2)
                in doGetEpisodes w bs (u\<lparr>RawQuery := Values_Encode q3\<rparr>) usedAPI)))"

definition EpisodesList ::
  "world \<Rightarrow> BetaSeries \<Rightarrow> int \<Rightarrow> int \<Rightarrow> string \<Rightarrow> int \<Rightarrow> int \<Rightarrow> int \<Rightarrow> bool \<Rightarrow> bool
     \<Rightarrow> request list \<times> (error + Show list)"
where
  "EpisodesList w bs showID theTvdbID imdbID userID limit released subtitles specials =
     (let usedAPI = ''/episodes/list'' in
      case url_Parse (baseURL bs @ usedAPI) of
        None \<Rightarrow> ([], Inl errURLParsing)
      | Some u \<Rightarrow>
          (let q0 = URL_Query u;
               q1 = (if specials then Values_Set q0 ''specials'' ''true'' else q0);
               q2 = (if subtitles then Values_Set q1 ''subtitles'' ''true'' else q1);
               q3 = (if released \<ge> 0 then Values_Set q2 ''released'' (Itoa released) else q2);
               q4 = (if showID > 0 then Values_Set q3 ''showId'' (Itoa showID) else q3);
               q5 = (if theTvdbID > 0 then Values_Set q4 ''showTheTVDBId'' (Itoa theTvdbID) else q4);
               q6 = (if imdbID \<noteq> [] then Values_Set q5 ''showIMDBId'' imdbID else q5);
               q7 = (if limit > 0 then Values_Set q6 ''limit'' (Itoa limit) else q6);
               q8 = (if userID > 0 then Values_Set q7 ''userId'' (Itoa userID) else q7)
           in doGetShows w bs (u\<lparr>RawQuery := Values_Encode q8\<rparr>) usedAPI))"

definition ShowNote ::
  "world \<Rightarrow> BetaSeries \<Rightarrow> int \<Rightarrow> int \<Rightarrow> int \<Rightarrow> request list \<times> (error + Show option)"
where
  "ShowNote w bs bsID theTvdbID note =
     (if note < 1 \<or> note > 5 then ([], Inl errInvalidNote)
      else showUpdate w bs ''POST'' ''note'' bsID theTvdbID [] note)"

definition ShowNoteRemove ::
  "world \<Rightarrow> BetaSeries \<Rightarrow> int \<Rightarrow> int \<Rightarrow> request list \<times> (error + Show option)"
where
  "ShowNoteRemove w bs bsID theTvdbID = showUpdate w bs ''DELETE'' ''note'' bsID theTvdbID [] 0"

section \<open>Episode endpoints (package file with episodeUpdate)\<close>

record episodeItem =
  episodeItem_Episode :: "Episode option"
  episodeItem_Errors :: "json list"

definition unmarshal_episodeItem :: "json \<Rightarrow> episodeItem option" where
  "unmarshal_episodeItem j = (case j of
       JNull \<Rightarrow> Some \<lparr>episodeItem_Episode = None, episodeItem_Errors = []\<rparr>
     | JObj ms \<Rightarrow> do {
         x \<leftarrow> as_pointer unmarshal_Episode (lookup_field ms ''episode'');
         es \<leftarrow> as_slice Some (lookup_field ms ''errors'');
         Some \<lparr>episodeItem_Episode = x, episodeItem_Errors = es\<rparr> }
     | _ \<Rightarrow> None)"


definition episodeUpdate ::
  "world \<Rightarrow> BetaSeries \<Rightarrow> string \<Rightarrow> int \<Rightarrow> request list \<times> (error + Episode option)"
where
  "episodeUpdate w bs method ident =
     (let usedAPI = ''/episodes/downloaded'' in
      case url_Parse (baseURL bs @ usedAPI) of
        None \<Rightarrow> ([], Inl errURLParsing)
      | Some u0 \<Rightarrow>
          (let q0 = URL_Query u0;
               q1 = Values_Set q0 ''id'' (Itoa ident);
               u = u0\<lparr>RawQuery := Values_Encode q1\<rparr>
           in case do_url w bs method u of
                (tr, Inl err) \<Rightarrow> (tr, Inl err)
              | (tr, Inr resp) \<Rightarrow>
                  (case decode unmarshal_episodeItem resp usedAPI (RawQuery u) of
                     Inl err \<Rightarrow> (tr, Inl err)
                   | Inr episode \<Rightarrow> (tr, Inr (episodeItem_Episode episode)))))"


definition EpisodeNotDownloaded :: "world \<Rightarrow> BetaSeries \<Rightarrow> int \<Rightarrow> request list \<times> (error + Episode option)" where
  "EpisodeNotDownloaded w bs ident = episodeUpdate w bs ''DELETE'' ident"

section \<open>Notions used in the statements\<close>

text \<open>
  The parameters a server reads from the query string of a request, as a map from a key
  to its values: the query string is parsed back with \<open>URL.Query\<close>.
\<close>

definition sent_params :: "request \<Rightarrow> string \<rightharpoonup> string list" where
  "sent_params r = map_of (URL_Query (Target r))"

text \<open>A call sent exactly one request, and the request satisfies \<open>P\<close>.\<close>

definition emits_one :: "request list \<times> 'a \<Rightarrow> (request \<Rightarrow> bool) \<Rightarrow> bool" where
  "emits_one c P = (case fst c of [r] \<Rightarrow> P r | _ \<Rightarrow> False)"

text \<open>The three ways a request can name a show.\<close>

definition by_local_id :: "int \<Rightarrow> request \<Rightarrow> bool" where
  "by_local_id n r = (sent_params r ''id'' = Some [Itoa n]
      \<and> sent_params r ''thetvdb_id'' = None \<and> sent_params r ''imdb_id'' = None)"

definition by_external_id :: "int \<Rightarrow> request \<Rightarrow> bool" where
  "by_external_id n r = (sent_params r ''thetvdb_id'' = Some [Itoa n]
      \<and> sent_params r ''id'' = None \<and> sent_params r ''imdb_id'' = None)"

definition by_imdb_id :: "string \<Rightarrow> request \<Rightarrow> bool" where
  "by_imdb_id s r = (sent_params r ''imdb_id'' = Some [s]
      \<and> sent_params r ''id'' = None \<and> sent_params r ''thetvdb_id'' = None)"

text \<open>The URL of a path under the base URL of the service, before a query is set.\<close>

definition api_url :: "string \<Rightarrow> URL" where
  "api_url p = \<lparr>Scheme = ''https'', Host = ''api.betaseries.com'', Path = p,
                 RawQuery = [], Fragment = []\<rparr>"

text \<open>A path segment without control bytes, question marks and number signs.\<close>

definition plain_path :: "string \<Rightarrow> bool" where
  "plain_path p = list_all (\<lambda>c. \<not> is_ctl c \<and> c \<noteq> CHR ''?'' \<and> c \<noteq> CHR ''#'') p"

text \<open>A parameter set as the client builds it: one entry per key, one value per entry.\<close>

definition single_valued :: "Values \<Rightarrow> bool" where
  "single_valued q = (distinct (map fst q) \<and> list_all (\<lambda>e. \<exists>v. snd e = [v]) q)"

definition encode_pair :: "string \<Rightarrow> string \<Rightarrow> string" where
  "encode_pair k v = QueryEscape k @ ''='' @ QueryEscape v"

text \<open>A parameter that is set only under a condition, as most options of the endpoints are.\<close>

definition set_if :: "bool \<Rightarrow> Values \<Rightarrow> string \<Rightarrow> string \<Rightarrow> Values" where
  "set_if c q k v = (if c then Values_Set q k v else q)"

text \<open>
  What \<open>decode\<close> makes of a response: the name of the endpoint and the query string,
  its other two arguments, play no part in the result.
\<close>

definition decoded :: "(json \<Rightarrow> 'a option) \<Rightarrow> response \<Rightarrow> error + 'a" where
  "decoded target resp = decode target resp [] []"

text \<open>
  Fixtures for the examples: the session that \<open>NewBetaseriesClient\<close> makes without
  credentials, a server that answers every request with the same response, and the
  response with status 200 and a given JSON body.
\<close>

definition anonymous_session :: BetaSeries where
  "anonymous_session = \<lparr>baseURL = bsBaseURL, version = bsVersion, key = ''0123456789ab'', token = None\<rparr>"

definition server :: "response \<Rightarrow> world" where
  "server resp = \<lparr>Http = (\<lambda>req. Inr resp)\<rparr>"

definition ok_json :: "json \<Rightarrow> response" where
  "ok_json j = \<lparr>StatusCode = 200, Body = Some j\<rparr>"

section \<open>Facts about the library functions\<close>

subsection \<open>The digits of \<open>Itoa\<close>\<close>

lemma digit_char_upt: "d \<in> set [0..<10] \<Longrightarrow> is_digit (digit_char d)"
  by (simp add: upt_rec is_digit_def digit_char_def, elim disjE, simp_all)

lemma digit_char_is_digit: "d < 10 \<Longrightarrow> is_digit (digit_char d)"
  using digit_char_upt [of d] by simp

lemma digits_are_digits: "c \<in> set (digits n) \<Longrightarrow> is_digit c"
proof (induction n rule: digits.induct)
  case (1 n)
  show ?case
  proof (cases "n < 10")
    case True
    with "1.prems" show ?thesis by (simp add: digits.simps [of n] digit_char_is_digit)
  next
    case False
    with "1.prems" have "c \<in> set (digits (n div 10)) \<or> c = digit_char (n mod 10)"
      by (auto simp add: digits.simps [of n])
    then show ?thesis
      using "1.IH" False by (auto simp add: digit_char_is_digit)
  qed
qed

lemma Itoa_chars: "c \<in> set (Itoa i) \<Longrightarrow> is_digit c \<or> c = CHR ''-''"
  by (auto simp add: Itoa_def dest: digits_are_digits split: if_splits)

subsection \<open>\<open>QueryUnescape\<close> undoes \<open>QueryEscape\<close>\<close>

text \<open>An escaped string has no separator of a query string in it, and unescapes to the original.\<close>

lemma hex_char_in: "d < 16 \<Longrightarrow> hex_char d \<in> set ''0123456789ABCDEF''"
  unfolding hex_char_def by (rule nth_mem) simp

lemma unhex_hex_char_upt: "d \<in> set [0..<16] \<Longrightarrow> unhex (hex_char d) = Some d"
  by (simp add: upt_rec unhex_def hex_char_def, elim disjE, simp_all)

lemma unhex_hex_char: "d < 16 \<Longrightarrow> unhex (hex_char d) = Some d"
  using unhex_hex_char_upt [of d] by simp

lemma reserved_chars:
  "\<not> unreserved CHR ''&''" "\<not> unreserved CHR ''=''" "\<not> unreserved CHR '';''"
  "\<not> unreserved CHR ''%''" "\<not> unreserved CHR ''+''"
  by (simp_all add: unreserved_def is_lower_def is_upper_def is_digit_def
        lower_letters_def upper_letters_def)

lemma hex_char_safe:
  "d < 16 \<Longrightarrow> hex_char d \<noteq> CHR ''&'' \<and> hex_char d \<noteq> CHR ''='' \<and> hex_char d \<noteq> CHR '';''"
  using hex_char_in [of d] by auto

lemma escape_char_safe:
  "x \<in> set (escape_char c) \<Longrightarrow> x \<noteq> CHR ''&'' \<and> x \<noteq> CHR ''='' \<and> x \<noteq> CHR '';''"
proof -
  assume x: "x \<in> set (escape_char c)"
  have h1: "(of_char c :: nat) div 16 < 16"
    by (simp add: less_mult_imp_div_less)
  have h2: "(of_char c :: nat) mod 16 < 16"
    by simp
  show ?thesis
  proof (cases "unreserved c")
    case True
    with x have "x = c" by (simp add: escape_char_def)
    with True reserved_chars show ?thesis by blast
  next
    case False
    with x have "x = CHR ''+'' \<or> x = CHR ''%'' \<or> x = hex_char (of_char c div 16)
        \<or> x = hex_char (of_char c mod 16)"
      by (auto simp add: escape_char_def split: if_splits)
    with hex_char_safe [OF h1] hex_char_safe [OF h2] show ?thesis by auto
  qed
qed

lemma QueryEscape_safe:
  "x \<in> set (QueryEscape s) \<Longrightarrow> x \<noteq> CHR ''&'' \<and> x \<noteq> CHR ''='' \<and> x \<noteq> CHR '';''"
  unfolding QueryEscape_def using escape_char_safe by auto

lemma QueryUnescape_escape_char:
  "QueryUnescape (escape_char c @ r) = map_option (\<lambda>t. c # t) (QueryUnescape r)"
proof (cases "unreserved c")
  case True
  with reserved_chars have "c \<noteq> CHR ''%''" "c \<noteq> CHR ''+''"
    by blast+
  with True show ?thesis by (simp add: escape_char_def)
next
  case False
  show ?thesis
  proof (cases "c = CHR '' ''")
    case True
    with False show ?thesis by (simp add: escape_char_def)
  next
    case sp: False
    have d: "(of_char c :: nat) div 16 < 16" by (simp add: less_mult_imp_div_less)
    have m: "(of_char c :: nat) mod 16 < 16" by simp
    have "char_of (16 * ((of_char c :: nat) div 16) + of_char c mod 16) = c" by simp
    with False sp show ?thesis
      by (cases "QueryUnescape r") (simp_all add: escape_char_def unhex_hex_char [OF d] unhex_hex_char [OF m])
  qed
qed

lemma QueryUnescape_QueryEscape: "QueryUnescape (QueryEscape s) = Some s"
proof (induction s)
  case Nil
  show ?case by (simp add: QueryEscape_def)
next
  case (Cons c s)
  have "QueryEscape (c # s) = escape_char c @ QueryEscape s" by (simp add: QueryEscape_def)
  with Cons show ?case by (simp add: QueryUnescape_escape_char)
qed


subsection \<open>\<open>URL.Query\<close> reads back what \<open>Values.Encode\<close> wrote\<close>

text \<open>
  For a parameter set with one value per key, parsing the encoded query string gives
  the entries sorted by key, hence the same map from keys to values.
\<close>

lemma split_on_absent: "c \<notin> set a \<Longrightarrow> split_on c a = [a]"
  by (induction a) auto

lemma split_on_append: "c \<notin> set a \<Longrightarrow> split_on c (a @ c # b) = a # split_on c b"
  by (induction a) auto

lemma split_on_join_amp:
  "ps \<noteq> [] \<Longrightarrow> \<forall>p \<in> set ps. CHR ''&'' \<notin> set p \<Longrightarrow> split_on CHR ''&'' (join_amp ps) = ps"
proof (induction ps rule: join_amp.induct)
  case 1
  then show ?case by simp
next
  case (2 p)
  then show ?case by (simp add: split_on_absent)
next
  case (3 p v va)
  then show ?case by (simp add: split_on_append)
qed

lemma strings_Cut_append:
  "c \<notin> set a \<Longrightarrow> strings_Cut c (a @ c # b) = (a, b)"
  by (induction a) (auto simp add: strings_Cut_def)

lemma encode_pair_safe: "CHR ''&'' \<notin> set (encode_pair k v)"
  using QueryEscape_safe [of "CHR ''&''" k] QueryEscape_safe [of "CHR ''&''" v]
  by (auto simp add: encode_pair_def)

lemma parse_pair_encode_pair: "parse_pair m (encode_pair k v) = Values_Add m k v"
proof -
  have semi: "CHR '';'' \<notin> set (encode_pair k v)"
    using QueryEscape_safe [of "CHR '';''" k] QueryEscape_safe [of "CHR '';''" v]
    by (auto simp add: encode_pair_def)
  have eq: "CHR ''='' \<notin> set (QueryEscape k)"
    using QueryEscape_safe [of "CHR ''=''" k] by auto
  have cut: "strings_Cut CHR ''='' (encode_pair k v) = (QueryEscape k, QueryEscape v)"
    using strings_Cut_append [OF eq, of "QueryEscape v"] by (simp add: encode_pair_def)
  have ne: "encode_pair k v \<noteq> []" by (simp add: encode_pair_def)
  show ?thesis
    using semi ne by (simp add: parse_pair_def cut QueryUnescape_QueryEscape)
qed

lemma single_valued_Nil: "single_valued []"
  by (simp add: single_valued_def)

lemma single_valued_iff:
  "single_valued q = (distinct (map fst q) \<and> (\<forall>e \<in> set q. \<exists>v. snd e = [v]))"
  by (simp add: single_valued_def list_all_iff)

lemma fst_Values_Set: "fst ` set (Values_Set q k v) = insert k (fst ` set q)"
  by (induction q k v rule: Values_Set.induct) auto

lemma snd_Values_Set: "e \<in> set (Values_Set q k v) \<Longrightarrow> e = (k, [v]) \<or> e \<in> set q"
  by (induction q k v rule: Values_Set.induct) (auto split: if_splits)

lemma distinct_Values_Set: "distinct (map fst q) \<Longrightarrow> distinct (map fst (Values_Set q k v))"
proof (induction q k v rule: Values_Set.induct)
  case (1 k v)
  then show ?case by simp
next
  case (2 k' vs q k v)
  then show ?case
    using fst_Values_Set [of q k v] by (auto simp add: image_iff) 
qed

lemma single_valued_Values_Set: "single_valued q \<Longrightarrow> single_valued (Values_Set q k v)"
  unfolding single_valued_iff using distinct_Values_Set snd_Values_Set by fastforce

lemma map_of_Values_Set: "map_of (Values_Set q k v) = (map_of q)(k \<mapsto> [v])"
  by (induction q k v rule: Values_Set.induct) auto

lemma Values_Add_fresh: "k \<notin> fst ` set m \<Longrightarrow> Values_Add m k v = m @ [(k, [v])]"
  by (induction m k v rule: Values_Add.induct) auto

lemma foldl_parse_pair:
  "distinct (map fst (m @ q)) \<Longrightarrow> \<forall>e \<in> set q. \<exists>v. snd e = [v] \<Longrightarrow>
   foldl parse_pair m (concat (map encode_entry q)) = m @ q"
proof (induction q arbitrary: m)
  case Nil
  then show ?case by simp
next
  case (Cons e q)
  from Cons.prems obtain k v where e: "e = (k, [v])" by (cases e) auto
  have fresh: "k \<notin> fst ` set m" using Cons.prems(1) e by auto
  have enc: "encode_entry (k, [v]) = [encode_pair k v]"
    by (simp add: encode_entry_def encode_pair_def)
  have "foldl parse_pair m (concat (map encode_entry (e # q))) =
        foldl parse_pair (m @ [e]) (concat (map encode_entry q))"
    by (simp add: enc parse_pair_encode_pair Values_Add_fresh [OF fresh] e)
  also have "\<dots> = (m @ [e]) @ q"
    using Cons.prems by (intro Cons.IH) auto
  finally show ?case by simp
qed

lemma set_insert_key: "set (insert_key e q) = insert e (set q)"
  by (induction e q rule: insert_key.induct) auto

lemma distinct_insert_key:
  "distinct (map fst (insert_key e q)) = (fst e \<notin> fst ` set q \<and> distinct (map fst q))"
  by (induction e q rule: insert_key.induct) (auto simp add: set_insert_key)

lemma set_sort_keys: "set (sort_keys q) = set q"
  unfolding sort_keys_def by (induction q) (auto simp add: set_insert_key)

lemma distinct_sort_keys: "distinct (map fst q) \<Longrightarrow> distinct (map fst (sort_keys q))"
proof (induction q)
  case Nil
  then show ?case by (simp add: sort_keys_def)
next
  case (Cons e q)
  then show ?case
    using set_sort_keys [of q]
    by (simp add: sort_keys_def distinct_insert_key)
qed

lemma map_of_sort_keys: "distinct (map fst q) \<Longrightarrow> map_of (sort_keys q) = map_of q"
  using map_of_inject_set [of "sort_keys q" q] distinct_sort_keys set_sort_keys by blast

lemma encode_entries_safe:
  "\<forall>e \<in> set q. \<exists>v. snd e = [v] \<Longrightarrow> \<forall>p \<in> set (concat (map encode_entry q)). CHR ''&'' \<notin> set p"
proof
  fix p
  assume sv: "\<forall>e \<in> set q. \<exists>v. snd e = [v]" and p: "p \<in> set (concat (map encode_entry q))"
  then obtain e where "e \<in> set q" "p \<in> set (encode_entry e)" by auto
  with sv obtain k v where "p = encode_pair k v"
    by (cases e) (auto simp add: encode_entry_def encode_pair_def)
  then show "CHR ''&'' \<notin> set p" by (simp add: encode_pair_safe)
qed

lemma URL_Query_Values_Encode:
  assumes "single_valued q"
  shows "URL_Query (u\<lparr>RawQuery := Values_Encode q\<rparr>) = sort_keys q"
proof (cases "q = []")
  case True
  then show ?thesis
    by (simp add: URL_Query_def Values_Encode_def sort_keys_def parse_pair_def)
next
  case False
  let ?s = "sort_keys q"
  have d: "distinct (map fst ?s)"
    using assms distinct_sort_keys by (simp add: single_valued_iff)
  have sv: "\<forall>e \<in> set ?s. \<exists>v. snd e = [v]"
    using assms by (simp add: single_valued_iff set_sort_keys)
  have "set ?s \<noteq> {}" using False by (simp add: set_sort_keys)
  then obtain e where e: "e \<in> set ?s" by (cases ?s) auto
  with sv have "encode_entry e \<noteq> []" by (auto simp add: encode_entry_def)
  with e have ne: "concat (map encode_entry ?s) \<noteq> []" by auto
  have "split_on CHR ''&'' (Values_Encode q) = concat (map encode_entry ?s)"
    unfolding Values_Encode_def
    by (rule split_on_join_amp [OF ne encode_entries_safe [OF sv]])
  then show ?thesis
    using foldl_parse_pair [of "[]" ?s] d sv by (simp add: URL_Query_def)
qed

lemma map_of_URL_Query_Values_Encode:
  "single_valued q \<Longrightarrow> map_of (URL_Query (u\<lparr>RawQuery := Values_Encode q\<rparr>)) = map_of q"
  by (simp add: URL_Query_Values_Encode map_of_sort_keys single_valued_iff)


subsection \<open>Parsing the URLs of the service\<close>

lemma takeWhile_all: "list_all P p \<Longrightarrow> takeWhile P p = p"
  by (induction p) auto

lemma dropWhile_all: "list_all P p \<Longrightarrow> dropWhile P p = []"
  by (induction p) auto

lemma plain_path_parts:
  assumes "plain_path p"
  shows "list_all (\<lambda>x. x \<noteq> CHR ''#'') p" "list_all (\<lambda>x. x \<noteq> CHR ''?'') p" "list_all (\<lambda>c. \<not> is_ctl c) p"
  using assms by (induction p) (auto simp add: plain_path_def)

lemma url_Parse_api:
  assumes "plain_path p"
  shows "url_Parse (bsBaseURL @ CHR ''/'' # p) = Some (api_url (CHR ''/'' # p))"
proof -
  note pp = plain_path_parts [OF assms]
  have ctl: "\<not> list_ex is_ctl (bsBaseURL @ CHR ''/'' # p)"
    using pp(3) by (simp add: bsBaseURL_def is_ctl_def list_ex_iff list_all_iff)
  have c1: "strings_Cut CHR ''#'' (bsBaseURL @ CHR ''/'' # p) = (bsBaseURL @ CHR ''/'' # p, [])"
    by (simp add: strings_Cut_def bsBaseURL_def takeWhile_all [OF pp(1)] dropWhile_all [OF pp(1)])
  have gs: "getScheme (bsBaseURL @ CHR ''/'' # p) = Some (''https'', ''//api.betaseries.com'' @ CHR ''/'' # p)"
    by (simp add: getScheme_def bsBaseURL_def is_lower_def is_upper_def is_digit_def
          lower_letters_def upper_letters_def)
  have c2: "strings_Cut CHR ''?'' (''//api.betaseries.com'' @ CHR ''/'' # p) = (''//api.betaseries.com'' @ CHR ''/'' # p, [])"
    by (simp add: strings_Cut_def takeWhile_all [OF pp(2)] dropWhile_all [OF pp(2)])
  have low: "ToLower ''https'' = ''https''"
    by (simp add: ToLower_def lower_char_def upper_letters_def lower_letters_def)
  show ?thesis
    unfolding url_Parse_def
    by (simp only: ctl if_False c1 gs fst_conv snd_conv option.case prod.case Let_def c2 low)
       (simp add: api_url_def)
qed

lemma URL_Query_api_url: "URL_Query (api_url p) = []"
  by (simp add: URL_Query_def api_url_def parse_pair_def)

subsection \<open>The request that is sent\<close>

lemma do_req_pair: "do_req w bs req = (fst (do_req w bs req), Http w (fst (do_req w bs req)))"
  by (simp add: do_req_def Let_def)

lemma Target_do_req [simp]: "Target (fst (do_req w bs req)) = Target req"
  by (simp add: do_req_def Let_def Header_Set_def split: option.splits)

lemma Method_do_req [simp]: "Method (fst (do_req w bs req)) = Method req"
  by (simp add: do_req_def Let_def Header_Set_def split: option.splits)

lemma fst_do_url: "fst (do_url w bs m u) = [fst (do_req w bs \<lparr>Method = m, Target = u, Header = []\<rparr>)]"
  by (simp add: do_url_def split: prod.splits)

lemma snd_do_url: "snd (do_url w bs m u) = Http w (fst (do_req w bs \<lparr>Method = m, Target = u, Header = []\<rparr>))"
  by (subst do_url_def, subst do_req_pair, simp)

lemma fst_doGetShows:
  "fst (doGetShows w bs u api) = [fst (do_req w bs \<lparr>Method = ''GET'', Target = u, Header = []\<rparr>)]"
  using fst_do_url [of w bs "''GET''" u]
  by (auto simp add: doGetShows_def split: prod.splits sum.splits)

lemma fst_doGetSimilars:
  "fst (doGetSimilars w bs u) = [fst (do_req w bs \<lparr>Method = ''GET'', Target = u, Header = []\<rparr>)]"
  using fst_do_url [of w bs "''GET''" u]
  by (auto simp add: doGetSimilars_def split: prod.splits sum.splits)

lemma fst_doGetEpisodes:
  "fst (doGetEpisodes w bs u api) = [fst (do_req w bs \<lparr>Method = ''GET'', Target = u, Header = []\<rparr>)]"
  using fst_do_url [of w bs "''GET''" u]
  by (auto simp add: doGetEpisodes_def split: prod.splits sum.splits)

lemma sent_params_do_req:
  "single_valued q \<Longrightarrow>
   sent_params (fst (do_req w bs \<lparr>Method = m, Target = u\<lparr>RawQuery := Values_Encode q\<rparr>, Header = []\<rparr>))
     = map_of q"
  by (simp add: sent_params_def map_of_URL_Query_Values_Encode)

section \<open>Facts about the endpoints\<close>

subsection \<open>Rewriting the endpoints\<close>

lemma plain_path_Nil: "plain_path []"
  by (simp add: plain_path_def)

lemma plain_path_Cons:
  "plain_path (c # p) = (\<not> is_ctl c \<and> c \<noteq> CHR ''?'' \<and> c \<noteq> CHR ''#'' \<and> plain_path p)"
  by (simp add: plain_path_def)

lemma do_url_eq:
  "do_url w bs m u =
     ([fst (do_req w bs \<lparr>Method = m, Target = u, Header = []\<rparr>)],
      Http w (fst (do_req w bs \<lparr>Method = m, Target = u, Header = []\<rparr>)))"
  by (subst do_url_def, subst do_req_pair, simp)

lemma fst_item_exchange:
  "fst (case X of Inl err \<Rightarrow> (tr, Inl err)
        | Inr resp \<Rightarrow> (case D resp of Inl err \<Rightarrow> (tr, Inl err) | Inr item \<Rightarrow> (tr, Inr (K item)))) = tr"
  by (simp split: sum.splits)

lemma fst_collection_exchange:
  "fst (case X of Inl err \<Rightarrow> (tr, Inl err)
        | Inr resp \<Rightarrow> (case D resp of Inl err \<Rightarrow> (tr, Inl err)
            | Inr data \<Rightarrow> if C data then (tr, Inl e) else (tr, Inr (K data)))) = tr"
  by (simp split: sum.splits)

lemma set_if_fold: "(if c then Values_Set q k v else q) = set_if c q k v"
  by (simp add: set_if_def)

lemma map_of_Values_Set_at:
  "map_of (Values_Set q k v) x = (if x = k then Some [v] else map_of q x)"
  by (simp add: map_of_Values_Set)

lemma map_of_set_if_at:
  "map_of (set_if c q k v) x = (if c \<and> x = k then Some [v] else map_of q x)"
  by (simp add: set_if_def map_of_Values_Set)

lemma single_valued_set_if: "single_valued q \<Longrightarrow> single_valued (set_if c q k v)"
  by (simp add: set_if_def single_valued_Values_Set)

lemma single_valued_if:
  "single_valued (if c then a else b) = (if c then single_valued a else single_valued b)"
  by simp

lemma map_of_if_at:
  "map_of (if c then a else b) x = (if c then map_of a x else map_of b x)"
  by simp

lemmas endpoint_simps =
  Let_def url_Parse_api plain_path_Cons plain_path_Nil is_ctl_def URL_Query_api_url
  emits_one_def fst_doGetShows fst_doGetSimilars fst_doGetEpisodes do_url_eq
  fst_item_exchange fst_collection_exchange set_if_fold
  sent_params_do_req single_valued_Nil single_valued_Values_Set single_valued_set_if
  single_valued_if map_of_Values_Set_at map_of_set_if_at map_of_if_at
  by_local_id_def by_external_id_def by_imdb_id_def

subsection \<open>The parameters each endpoint sends\<close>

lemma ShowsSimilars_local:
  "baseURL bs = bsBaseURL \<Longrightarrow> 0 < ident \<Longrightarrow>
   emits_one (ShowsSimilars w bs ident tv d) (by_local_id ident)"
  by (simp add: ShowsSimilars_def endpoint_simps del: Values_Set.simps)

lemma ShowsCharacters_local:
  "baseURL bs = bsBaseURL \<Longrightarrow> 0 < ident \<Longrightarrow>
   emits_one (ShowsCharacters w bs ident tv) (by_local_id ident)"
  by (simp add: ShowsCharacters_def endpoint_simps del: Values_Set.simps)

lemma ShowsEpisodes_local:
  "baseURL bs = bsBaseURL \<Longrightarrow> 0 < ident \<Longrightarrow>
   emits_one (ShowsEpisodes w bs ident tv se ep sub) (by_local_id ident)"
  by (simp add: ShowsEpisodes_def endpoint_simps del: Values_Set.simps)


lemma showUpdate_local:
  "baseURL bs = bsBaseURL \<Longrightarrow> plain_path endPoint \<Longrightarrow> 0 < ident \<Longrightarrow>
   emits_one (showUpdate w bs m endPoint ident tv imdb opt) (by_local_id ident)"
  by (simp add: showUpdate_def endpoint_simps del: Values_Set.simps)

lemma ShowsSimilars_external:
  "baseURL bs = bsBaseURL \<Longrightarrow> \<not> 0 < ident \<Longrightarrow> 0 < tv \<Longrightarrow>
   emits_one (ShowsSimilars w bs ident tv d) (by_external_id tv)"
  by (simp add: ShowsSimilars_def endpoint_simps del: Values_Set.simps)

lemma ShowsCharacters_external:
  "baseURL bs = bsBaseURL \<Longrightarrow> \<not> 0 < ident \<Longrightarrow> 0 < tv \<Longrightarrow>
   emits_one (ShowsCharacters w bs ident tv) (by_external_id tv)"
  by (simp add: ShowsCharacters_def endpoint_simps del: Values_Set.simps)

lemma ShowsEpisodes_external:
  "baseURL bs = bsBaseURL \<Longrightarrow> \<not> 0 < ident \<Longrightarrow> 0 < tv \<Longrightarrow>
   emits_one (ShowsEpisodes w bs ident tv se ep sub) (by_external_id tv)"
  by (simp add: ShowsEpisodes_def endpoint_simps del: Values_Set.simps)

lemma showUpdate_external:
  "baseURL bs = bsBaseURL \<Longrightarrow> plain_path endPoint \<Longrightarrow> \<not> 0 < ident \<Longrightarrow> 0 < tv \<Longrightarrow>
   emits_one (showUpdate w bs m endPoint ident tv imdb opt) (by_external_id tv)"
  by (simp add: showUpdate_def endpoint_simps del: Values_Set.simps)

lemma showUpdate_imdb:
  "baseURL bs = bsBaseURL \<Longrightarrow> plain_path endPoint \<Longrightarrow> \<not> 0 < ident \<Longrightarrow> \<not> 0 < tv \<Longrightarrow>
   imdb \<noteq> [] \<Longrightarrow>
   emits_one (showUpdate w bs m endPoint ident tv imdb opt) (by_imdb_id imdb)"
  by (simp add: showUpdate_def endpoint_simps del: Values_Set.simps)

lemma no_id_failures:
  assumes "baseURL bs = bsBaseURL" and "\<not> 0 < ident" and "\<not> 0 < tv"
  shows "ShowsSimilars w bs ident tv d = ([], Inl errIDNotProperlySet)"
    and "ShowsCharacters w bs ident tv = ([], Inl errIDNotProperlySet)"
    and "ShowsEpisodes w bs ident tv se ep sub = ([], Inl errIDNotProperlySet)"
    and "ShowsVideos w bs ident tv = ([], Inl errIDNotProperlySet)"
    and "plain_path endPoint \<Longrightarrow>
         showUpdate w bs m endPoint ident tv [] opt = ([], Inl errIDNotProperlySet)"
  using assms
  by (simp_all add: ShowsSimilars_def ShowsCharacters_def ShowsEpisodes_def ShowsVideos_def
        showUpdate_def Let_def url_Parse_api plain_path_Cons plain_path_Nil is_ctl_def)

lemma ShowsVideos_both:
  "baseURL bs = bsBaseURL \<Longrightarrow> 0 < ident \<Longrightarrow> 0 < tv \<Longrightarrow>
   ShowsVideos w bs ident tv = ([], Inl errNoSingleIDUsed)"
  by (simp add: ShowsVideos_def Let_def url_Parse_api plain_path_Cons plain_path_Nil is_ctl_def)

lemma ShowsVideos_local:
  "baseURL bs = bsBaseURL \<Longrightarrow> 0 < ident \<Longrightarrow> \<not> 0 < tv \<Longrightarrow>
   emits_one (ShowsVideos w bs ident tv) (by_local_id ident)"
  by (simp add: ShowsVideos_def endpoint_simps del: Values_Set.simps)








lemma ShowNote_invalid:
  "note < 1 \<or> 5 < note \<Longrightarrow> ShowNote w bs a b note = ([], Inl errInvalidNote)"
  by (auto simp add: ShowNote_def)

lemma showUpdate_note_param:
  "baseURL bs = bsBaseURL \<Longrightarrow> 0 < note \<Longrightarrow>
   list_all (\<lambda>r. sent_params r ''note'' = Some [Itoa note])
     (fst (showUpdate w bs m ''note'' a b imdb note))"
  by (simp add: showUpdate_def endpoint_simps del: Values_Set.simps)

lemma showUpdate_length:
  "baseURL bs = bsBaseURL \<Longrightarrow> plain_path endPoint \<Longrightarrow> 0 < a \<or> 0 < b \<or> imdb \<noteq> [] \<Longrightarrow>
   length (fst (showUpdate w bs m endPoint a b imdb opt)) = 1"
  by (auto simp add: showUpdate_def endpoint_simps simp del: Values_Set.simps)


subsection \<open>Results, when the server answers every request with the same response\<close>

lemma decode_decoded: "decode t resp a b = decoded t resp"
  by (simp add: decoded_def decode_def)

lemma doGetShows_result:
  "(\<And>req. Http w req = Inr resp) \<Longrightarrow>
   snd (doGetShows w bs u api) =
     (case decoded unmarshal_shows resp of
        Inl err \<Rightarrow> Inl err
      | Inr data \<Rightarrow> if Shows data = [] then Inl errNoShowsFound else Inr (Shows data))"
  by (simp add: doGetShows_def do_url_eq decode_decoded
        split: sum.splits)

lemma doGetSimilars_result:
  "(\<And>req. Http w req = Inr resp) \<Longrightarrow>
   snd (doGetSimilars w bs u) =
     (case decoded unmarshal_similars resp of
        Inl err \<Rightarrow> Inl err
      | Inr data \<Rightarrow> if Similars data = [] then Inl errNoShowsFound else Inr (Similars data))"
  by (simp add: doGetSimilars_def do_url_eq decode_decoded
        split: sum.splits)

lemma doGetEpisodes_result:
  "(\<And>req. Http w req = Inr resp) \<Longrightarrow>
   snd (doGetEpisodes w bs u api) =
     (case decoded unmarshal_episodes resp of
        Inl err \<Rightarrow> Inl err
      | Inr data \<Rightarrow> if Episodes data = [] then Inl errNoEpisodesFound else Inr (Episodes data))"
  by (simp add: doGetEpisodes_def do_url_eq decode_decoded
        split: sum.splits)

lemma ShowsCharacters_result:
  "(\<And>req. Http w req = Inr resp) \<Longrightarrow> baseURL bs = bsBaseURL \<Longrightarrow> 0 < ident \<or> 0 < tv \<Longrightarrow>
   snd (ShowsCharacters w bs ident tv) =
     (case decoded unmarshal_characters resp of
        Inl err \<Rightarrow> Inl err
      | Inr data \<Rightarrow> if Characters data = [] then Inl errNoCharactersFound else Inr (Characters data))"
  by (cases "0 < ident")
     (simp_all add: ShowsCharacters_def Let_def url_Parse_api plain_path_Cons plain_path_Nil
        is_ctl_def do_url_eq decode_decoded
        split: sum.splits del: Values_Set.simps)

lemma ShowsVideos_result:
  "(\<And>req. Http w req = Inr resp) \<Longrightarrow> baseURL bs = bsBaseURL \<Longrightarrow>
   (0 < ident \<and> \<not> 0 < tv) \<or> (\<not> 0 < ident \<and> 0 < tv) \<Longrightarrow>
   snd (ShowsVideos w bs ident tv) =
     (case decoded unmarshal_videos resp of
        Inl err \<Rightarrow> Inl err
      | Inr data \<Rightarrow> if Videos data = [] then Inl errNoVideosFound else Inr (Videos data))"
  by (cases "0 < ident")
     (simp_all add: ShowsVideos_def Let_def url_Parse_api plain_path_Cons plain_path_Nil
        is_ctl_def do_url_eq decode_decoded
        split: sum.splits del: Values_Set.simps)



section \<open>Properties of the client\<close>

subsection \<open>Anonymous sessions\<close>

text \<open>
  Claim C9. For every API key and login, constructing a client with an empty login or
  an empty password sends no request (there is no credential exchange) and returns
  a session without a token, and no error.
\<close>

theorem anonymous_client:
  "login = [] \<or> password = [] \<Longrightarrow>
   NewBetaseriesClient md5hex w k login password =
     ([], Return (\<lparr>baseURL = bsBaseURL, version = bsVersion, key = k, token = None\<rparr>, None))"
  by (auto simp add: NewBetaseriesClient_def retrieveToken_def)

theorem anonymous_client_witness:
  "(''alice'' = [] \<or> ([]::string) = []) \<and>
   NewBetaseriesClient (\<lambda>s. []) \<lparr>Http = (\<lambda>r. Inl (LibraryError ''unreachable''))\<rparr>
       ''0123456789ab'' ''alice'' [] =
     ([], Return (\<lparr>baseURL = ''https://api.betaseries.com'', version = ''2.4'',
                   key = ''0123456789ab'', token = None\<rparr>, None))"
  using anonymous_client [of "''alice''" "[]" "\<lambda>s. []"
      "\<lparr>Http = (\<lambda>r. Inl (LibraryError ''unreachable''))\<rparr>" "''0123456789ab''"]
  by (simp add: bsBaseURL_def bsVersion_def)

lemma base_anonymous: "baseURL anonymous_session = bsBaseURL"
  by (simp add: anonymous_session_def)

lemma server_answers: "Http (server resp) req = Inr resp"
  by (simp add: server_def)

lemmas encode_simps =
  Values_Encode_def sort_keys_def encode_entry_def QueryEscape_def escape_char_def
  unreserved_def is_lower_def is_upper_def is_digit_def ToLower_def lower_char_def
  upper_letters_def lower_letters_def is_ctl_def Let_def

lemmas json_simps =
  decoded_def decode_def lookup_field_def as_int_def as_string_def as_bool_def as_slice_def
  as_pointer_def unmarshal_apiError_def unmarshal_errAPI_def unmarshal_Show_def
  unmarshal_shows_def unmarshal_showItem_def unmarshal_Similar_def unmarshal_similars_def
  unmarshal_Character_def unmarshal_characters_def unmarshal_Video_def unmarshal_videos_def
  unmarshal_Episode_def unmarshal_episodes_def unmarshal_episodeItem_def
  ToLower_def lower_char_def upper_letters_def lower_letters_def ok_json_def

subsection \<open>The credential exchange\<close>

lemma safe_unreserved:
  "list_all (\<lambda>c. \<not> is_ctl c \<and> c \<noteq> CHR ''#'') (lower_letters @ upper_letters @ ''0123456789-_.~'')"
  by (simp add: is_ctl_def lower_letters_def upper_letters_def)

lemma unreserved_plain: "unreserved c \<Longrightarrow> \<not> is_ctl c \<and> c \<noteq> CHR ''#''"
proof -
  assume "unreserved c"
  then have "c \<in> set (lower_letters @ upper_letters @ ''0123456789-_.~'')"
    by (auto simp add: unreserved_def is_lower_def is_upper_def is_digit_def)
  with safe_unreserved show ?thesis unfolding list_all_iff by blast
qed

lemma hex_char_plain: "d < 16 \<Longrightarrow> \<not> is_ctl (hex_char d) \<and> hex_char d \<noteq> CHR ''#''"
proof -
  assume "d < 16"
  then have "hex_char d \<in> set ''0123456789ABCDEF''" by (rule hex_char_in)
  moreover have "list_all (\<lambda>c. \<not> is_ctl c \<and> c \<noteq> CHR ''#'') ''0123456789ABCDEF''"
    by (simp add: is_ctl_def)
  ultimately show ?thesis unfolding list_all_iff by blast
qed

lemma escape_char_plain: "x \<in> set (escape_char c) \<Longrightarrow> \<not> is_ctl x \<and> x \<noteq> CHR ''#''"
proof (cases "unreserved c")
  case True
  assume "x \<in> set (escape_char c)"
  with True have "x = c" by (simp add: escape_char_def)
  with True show ?thesis using unreserved_plain by blast
next
  case False
  assume x: "x \<in> set (escape_char c)"
  have h1: "(of_char c :: nat) div 16 < 16" by (simp add: less_mult_imp_div_less)
  have h2: "(of_char c :: nat) mod 16 < 16" by simp
  from x False have "x = CHR ''+'' \<or> x = CHR ''%'' \<or> x = hex_char (of_char c div 16)
        \<or> x = hex_char (of_char c mod 16)"
    by (auto simp add: escape_char_def split: if_splits)
  with hex_char_plain [OF h1] hex_char_plain [OF h2] show ?thesis
    by (auto simp add: is_ctl_def)
qed

lemma QueryEscape_plain: "x \<in> set (QueryEscape s) \<Longrightarrow> \<not> is_ctl x \<and> x \<noteq> CHR ''#''"
proof -
  assume "x \<in> set (QueryEscape s)"
  then obtain c where "x \<in> set (escape_char c)" by (auto simp add: QueryEscape_def)
  then show ?thesis by (rule escape_char_plain)
qed

lemma set_join_amp: "x \<in> set (join_amp ps) \<Longrightarrow> x = CHR ''&'' \<or> (\<exists>p \<in> set ps. x \<in> set p)"
  by (induction ps rule: join_amp.induct) auto

lemma Values_Encode_plain: "x \<in> set (Values_Encode q) \<Longrightarrow> \<not> is_ctl x \<and> x \<noteq> CHR ''#''"
proof -
  assume "x \<in> set (Values_Encode q)"
  then have "x = CHR ''&'' \<or> (\<exists>p \<in> set (concat (map encode_entry (sort_keys q))). x \<in> set p)"
    unfolding Values_Encode_def by (rule set_join_amp)
  then show ?thesis
  proof
    assume "x = CHR ''&''"
    then show ?thesis by (simp add: is_ctl_def)
  next
    assume "\<exists>p \<in> set (concat (map encode_entry (sort_keys q))). x \<in> set p"
    then obtain k v where "x \<in> set (QueryEscape k @ ''='' @ QueryEscape v)"
      by (auto simp add: encode_entry_def)
    then have "x \<in> set (QueryEscape k) \<or> x = CHR ''='' \<or> x \<in> set (QueryEscape v)" by auto
    then show ?thesis using QueryEscape_plain by (auto simp add: is_ctl_def)
  qed
qed

lemma strings_Cut_absent: "c \<notin> set a \<Longrightarrow> strings_Cut c a = (a, [])"
  by (induction a) (auto simp add: strings_Cut_def)

lemma url_Parse_URL_String:
  assumes p: "plain_path p" and q: "\<forall>x \<in> set q. \<not> is_ctl x \<and> x \<noteq> CHR ''#''"
  shows "url_Parse (URL_String (api_url (CHR ''/'' # p)\<lparr>RawQuery := q\<rparr>))
       = Some (api_url (CHR ''/'' # p)\<lparr>RawQuery := q\<rparr>)"
proof (cases "q = []")
  case True
  then have "URL_String (api_url (CHR ''/'' # p)\<lparr>RawQuery := q\<rparr>) = bsBaseURL @ CHR ''/'' # p"
    by (simp add: URL_String_def api_url_def bsBaseURL_def)
  with True show ?thesis by (simp add: url_Parse_api [OF p] api_url_def)
next
  case False
  note pp = plain_path_parts [OF p]
  let ?s = "bsBaseURL @ CHR ''/'' # p @ CHR ''?'' # q"
  have str: "URL_String (api_url (CHR ''/'' # p)\<lparr>RawQuery := q\<rparr>) = ?s"
    using False by (simp add: URL_String_def api_url_def bsBaseURL_def)
  have ctl: "\<not> list_ex is_ctl ?s"
    using pp(3) q by (auto simp add: bsBaseURL_def is_ctl_def list_ex_iff list_all_iff)
  have nohash: "CHR ''#'' \<notin> set ?s"
    using pp(1) q by (auto simp add: bsBaseURL_def list_all_iff)
  have c1: "strings_Cut CHR ''#'' ?s = (?s, [])"
    by (rule strings_Cut_absent [OF nohash])
  have gs: "getScheme ?s = Some (''https'', ''//api.betaseries.com'' @ CHR ''/'' # p @ CHR ''?'' # q)"
    by (simp add: getScheme_def bsBaseURL_def is_lower_def is_upper_def is_digit_def
          lower_letters_def upper_letters_def)
  have noq: "CHR ''?'' \<notin> set (''//api.betaseries.com'' @ CHR ''/'' # p)"
    using pp(2) by (auto simp add: list_all_iff)
  have c2: "strings_Cut CHR ''?'' (''//api.betaseries.com'' @ CHR ''/'' # p @ CHR ''?'' # q)
      = (''//api.betaseries.com'' @ CHR ''/'' # p, q)"
    using strings_Cut_append [OF noq, of q] by simp
  have low: "ToLower ''https'' = ''https''"
    by (simp add: ToLower_def lower_char_def upper_letters_def lower_letters_def)
  have "url_Parse ?s = Some (api_url (CHR ''/'' # p)\<lparr>RawQuery := q\<rparr>)"
    unfolding url_Parse_def
    by (simp only: ctl if_False c1 gs fst_conv snd_conv option.case prod.case Let_def c2 low)
       (simp add: api_url_def)
  with str show ?thesis by simp
qed

lemma retrieveToken_fatal:
  assumes "baseURL bs = bsBaseURL" and "login \<noteq> []" and "password \<noteq> []"
    and "StatusCode resp \<noteq> 200" and "Body resp = None"
  shows "snd (retrieveToken md5hex (server resp) bs login password)
       = Fatal (Errorf ''Error decoding API error : %v'' [ArgError (LibraryError ''encoding/json'')])"
    and "length (fst (retrieveToken md5hex (server resp) bs login password)) = 1"
proof -
  let ?q = "Values_Encode (Values_Set (Values_Set [] ''login'' login) ''password'' (md5hex password))"
  have pp: "plain_path ''members/auth''" by (simp add: plain_path_def is_ctl_def)
  have parse: "url_Parse (bsBaseURL @ ''/members/auth'') = Some (api_url ''/members/auth'')"
    using url_Parse_api [OF pp] by simp
  have req: "http_NewRequest ''POST'' (URL_String (api_url ''/members/auth''\<lparr>RawQuery := ?q\<rparr>))
      = Inr \<lparr>Method = ''POST'', Target = api_url ''/members/auth''\<lparr>RawQuery := ?q\<rparr>, Header = []\<rparr>"
    using url_Parse_URL_String [OF pp, of ?q] Values_Encode_plain [of _ "Values_Set (Values_Set [] ''login'' login) ''password'' (md5hex password)"]
    by (simp add: http_NewRequest_def is_token_char_def is_upper_def upper_letters_def del: Values_Set.simps)
  define sent where "sent = fst (do_req (server resp) bs
      \<lparr>Method = ''POST'', Target = api_url ''/members/auth''\<lparr>RawQuery := ?q\<rparr>, Header = []\<rparr>)"
  have d: "do_req (server resp) bs
      \<lparr>Method = ''POST'', Target = api_url ''/members/auth''\<lparr>RawQuery := ?q\<rparr>, Header = []\<rparr>
      = (sent, Inr resp)"
    unfolding sent_def by (subst do_req_pair) (simp add: server_answers)
  have out: "retrieveToken md5hex (server resp) bs login password =
      ([sent], Fatal (Errorf ''Error decoding API error : %v'' [ArgError (LibraryError ''encoding/json'')]))"
    using assms
    by (simp add: retrieveToken_def parse URL_Query_api_url Let_def req decodeErr_def d
          del: Values_Set.simps)
  show "snd (retrieveToken md5hex (server resp) bs login password)
       = Fatal (Errorf ''Error decoding API error : %v'' [ArgError (LibraryError ''encoding/json'')])"
    by (simp add: out)
  show "length (fst (retrieveToken md5hex (server resp) bs login password)) = 1"
    by (simp add: out)
qed

lemma NewBetaseriesClient_fatal:
  assumes "login \<noteq> []" and "password \<noteq> []" and "StatusCode resp \<noteq> 200" and "Body resp = None"
  shows "snd (NewBetaseriesClient md5hex (server resp) k login password)
       = Fatal (Errorf ''Error decoding API error : %v'' [ArgError (LibraryError ''encoding/json'')])"
  using retrieveToken_fatal(1) [OF _ assms] by (simp add: NewBetaseriesClient_def)

text \<open>
  Claim C1 says that a service-error body that is not valid JSON is reported to the
  caller as a decode error. The code does not do that: with a non-empty login and
  password, a response with status 502 and a body that is not JSON (\<open>Body = None\<close>)
  makes \<open>decodeErr\<close> call \<open>log.Fatalf\<close>, and the process ends after the one request
  was sent; nothing is returned to the caller. (\<open>NewBetaseriesClient_fatal\<close> above shows
  the same for every non-empty login and password and every status other than 200.)
\<close>

theorem fatal_on_malformed_error_body:
  "NewBetaseriesClient (\<lambda>s. ''5ebe2294ecd0e0f08eab7690d2a6ee69'')
      (server \<lparr>StatusCode = 502, Body = None\<rparr>) ''0123456789ab'' ''alice'' ''secret'' =
   ([\<lparr>Method = ''POST'',
      Target = \<lparr>Scheme = ''https'', Host = ''api.betaseries.com'', Path = ''/members/auth'',
                RawQuery = ''login=alice&password=5ebe2294ecd0e0f08eab7690d2a6ee69'',
                Fragment = []\<rparr>,
      Header = [(''Accept'', ''application/json''), (''X-Betaseries-Version'', ''2.4''),
                (''X-Betaseries-Key'', ''0123456789ab'')]\<rparr>],
    Fatal (Errorf ''Error decoding API error : %v'' [ArgError (LibraryError ''encoding/json'')]))"
  by code_simp

subsection \<open>Which identifier a request carries\<close>

lemma EpisodesList_ids:
  "baseURL bs = bsBaseURL \<Longrightarrow>
   emits_one (EpisodesList w bs showID tv imdb userID limit released sub spec)
     (\<lambda>r. sent_params r ''showId'' = (if 0 < showID then Some [Itoa showID] else None)
        \<and> sent_params r ''showTheTVDBId'' = (if 0 < tv then Some [Itoa tv] else None)
        \<and> sent_params r ''showIMDBId'' = (if imdb \<noteq> [] then Some [imdb] else None)
        \<and> sent_params r ''id'' = None \<and> sent_params r ''thetvdb_id'' = None)"
  by (simp add: EpisodesList_def endpoint_simps del: Values_Set.simps)

text \<open>
  Claim C3, as amended. For \<open>ShowsSimilars\<close>, \<open>ShowsCharacters\<close>, \<open>ShowsEpisodes\<close> and
  \<open>showUpdate\<close> (the function behind \<open>ShowDisplay\<close>, \<open>ShowAdd\<close>, \<open>ShowRemove\<close>,
  \<open>ShowArchive\<close>, \<open>ShowNotArchive\<close>, \<open>ShowNote\<close>): a positive local ID is sent as \<open>id\<close>
  with no \<open>thetvdb_id\<close> and no \<open>imdb_id\<close>; else a positive external ID is sent as
  \<open>thetvdb_id\<close> alone; else \<open>showUpdate\<close> sends a non-empty IMDB ID as \<open>imdb_id\<close> alone;
  otherwise the call fails with \<open>errIDNotProperlySet\<close> and sends no request.
  \<open>ShowsVideos\<close> sends \<open>id\<close> alone when only the local ID is positive, fails with
  \<open>errNoSingleIDUsed\<close> without a request when both are positive, and with
  \<open>errIDNotProperlySet\<close> when neither is. \<open>EpisodesList\<close> has no such policy: it always
  sends its request, with each of \<open>showId\<close>, \<open>showTheTVDBId\<close>, \<open>showIMDBId\<close> present
  exactly when the matching argument is set.
\<close>

theorem id_resolution:
  assumes "baseURL bs = bsBaseURL" and "plain_path endPoint"
  shows "(0 < ident \<longrightarrow>
            emits_one (ShowsSimilars w bs ident tv d) (by_local_id ident)
          \<and> emits_one (ShowsCharacters w bs ident tv) (by_local_id ident)
          \<and> emits_one (ShowsEpisodes w bs ident tv se ep sub) (by_local_id ident)
          \<and> emits_one (showUpdate w bs m endPoint ident tv imdb opt) (by_local_id ident))
       \<and> (\<not> 0 < ident \<and> 0 < tv \<longrightarrow>
            emits_one (ShowsSimilars w bs ident tv d) (by_external_id tv)
          \<and> emits_one (ShowsCharacters w bs ident tv) (by_external_id tv)
          \<and> emits_one (ShowsEpisodes w bs ident tv se ep sub) (by_external_id tv)
          \<and> emits_one (showUpdate w bs m endPoint ident tv imdb opt) (by_external_id tv))
       \<and> (\<not> 0 < ident \<and> \<not> 0 < tv \<and> imdb \<noteq> [] \<longrightarrow>
            emits_one (showUpdate w bs m endPoint ident tv imdb opt) (by_imdb_id imdb))
       \<and> (\<not> 0 < ident \<and> \<not> 0 < tv \<longrightarrow>
            ShowsSimilars w bs ident tv d = ([], Inl errIDNotProperlySet)
          \<and> ShowsCharacters w bs ident tv = ([], Inl errIDNotProperlySet)
          \<and> ShowsEpisodes w bs ident tv se ep sub = ([], Inl errIDNotProperlySet)
          \<and> ShowsVideos w bs ident tv = ([], Inl errIDNotProperlySet)
          \<and> showUpdate w bs m endPoint ident tv [] opt = ([], Inl errIDNotProperlySet))
       \<and> (0 < ident \<and> \<not> 0 < tv \<longrightarrow>
            emits_one (ShowsVideos w bs ident tv) (by_local_id ident))
       \<and> (0 < ident \<and> 0 < tv \<longrightarrow> ShowsVideos w bs ident tv = ([], Inl errNoSingleIDUsed))
       \<and> emits_one (EpisodesList w bs ident tv imdb userID limit released sub spec)
            (\<lambda>r. sent_params r ''showId'' = (if 0 < ident then Some [Itoa ident] else None)
               \<and> sent_params r ''showTheTVDBId'' = (if 0 < tv then Some [Itoa tv] else None)
               \<and> sent_params r ''showIMDBId'' = (if imdb \<noteq> [] then Some [imdb] else None)
               \<and> sent_params r ''id'' = None \<and> sent_params r ''thetvdb_id'' = None)"
proof -
  note b = assms(1) and p = assms(2)
  have local: "0 < ident \<longrightarrow>
            emits_one (ShowsSimilars w bs ident tv d) (by_local_id ident)
          \<and> emits_one (ShowsCharacters w bs ident tv) (by_local_id ident)
          \<and> emits_one (ShowsEpisodes w bs ident tv se ep sub) (by_local_id ident)
          \<and> emits_one (showUpdate w bs m endPoint ident tv imdb opt) (by_local_id ident)"
    by (simp add: ShowsSimilars_local [OF b] ShowsCharacters_local [OF b]
          ShowsEpisodes_local [OF b] showUpdate_local [OF b p])
  have ext: "\<not> 0 < ident \<and> 0 < tv \<longrightarrow>
            emits_one (ShowsSimilars w bs ident tv d) (by_external_id tv)
          \<and> emits_one (ShowsCharacters w bs ident tv) (by_external_id tv)
          \<and> emits_one (ShowsEpisodes w bs ident tv se ep sub) (by_external_id tv)
          \<and> emits_one (showUpdate w bs m endPoint ident tv imdb opt) (by_external_id tv)"
    by (simp add: ShowsSimilars_external [OF b] ShowsCharacters_external [OF b]
          ShowsEpisodes_external [OF b] showUpdate_external [OF b p])
  have imdb: "\<not> 0 < ident \<and> \<not> 0 < tv \<and> imdb \<noteq> [] \<longrightarrow>
            emits_one (showUpdate w bs m endPoint ident tv imdb opt) (by_imdb_id imdb)"
    by (simp add: showUpdate_imdb [OF b p])
  have none: "\<not> 0 < ident \<and> \<not> 0 < tv \<longrightarrow>
            ShowsSimilars w bs ident tv d = ([], Inl errIDNotProperlySet)
          \<and> ShowsCharacters w bs ident tv = ([], Inl errIDNotProperlySet)
          \<and> ShowsEpisodes w bs ident tv se ep sub = ([], Inl errIDNotProperlySet)
          \<and> ShowsVideos w bs ident tv = ([], Inl errIDNotProperlySet)
          \<and> showUpdate w bs m endPoint ident tv [] opt = ([], Inl errIDNotProperlySet)"
    by (simp add: no_id_failures [OF b] p)
  have videos: "(0 < ident \<and> \<not> 0 < tv \<longrightarrow>
            emits_one (ShowsVideos w bs ident tv) (by_local_id ident))
       \<and> (0 < ident \<and> 0 < tv \<longrightarrow> ShowsVideos w bs ident tv = ([], Inl errNoSingleIDUsed))"
    by (simp add: ShowsVideos_local [OF b] ShowsVideos_both [OF b])
  show ?thesis
    by (intro conjI local ext imdb none videos [THEN conjunct1] videos [THEN conjunct2]
          EpisodesList_ids [OF b])
qed


theorem id_resolution_counterexample:
  "ShowsVideos (server (ok_json (JObj []))) anonymous_session 5 5 = ([], Inl errNoSingleIDUsed)
   \<and> length (fst (EpisodesList (server (ok_json (JObj []))) anonymous_session 0 0 [] 0 0 (- 1) False False)) = 1
   \<and> snd (EpisodesList (server (ok_json (JObj []))) anonymous_session 0 0 [] 0 0 (- 1) False False)
       = Inl errNoShowsFound"
  by code_simp

theorem id_resolution_witness:
  "baseURL anonymous_session = bsBaseURL \<and> plain_path ''display''
   \<and> emits_one (ShowsSimilars (server (ok_json (JObj []))) anonymous_session 5 0 False) (by_local_id 5)
   \<and> emits_one (showUpdate (server (ok_json (JObj []))) anonymous_session ''GET'' ''display'' 5 0 [] 0)
        (by_local_id 5)
   \<and> emits_one (ShowsCharacters (server (ok_json (JObj []))) anonymous_session 0 7) (by_external_id 7)
   \<and> emits_one (showUpdate (server (ok_json (JObj []))) anonymous_session ''GET'' ''display'' 0 0 ''tt0411008'' 0)
        (by_imdb_id ''tt0411008'')
   \<and> ShowsEpisodes (server (ok_json (JObj []))) anonymous_session 0 0 1 2 False
        = ([], Inl errIDNotProperlySet)
   \<and> emits_one (ShowsVideos (server (ok_json (JObj []))) anonymous_session 5 0) (by_local_id 5)
   \<and> ShowsVideos (server (ok_json (JObj []))) anonymous_session 5 7 = ([], Inl errNoSingleIDUsed)"
  using
    id_resolution [where bs = anonymous_session and endPoint = "''display''" and ident = 5 and tv = 0
      and w = "server (ok_json (JObj []))" and d = False and m = "''GET''" and imdb = "[]" and opt = 0]
    id_resolution [where bs = anonymous_session and endPoint = "''display''" and ident = 0 and tv = 7
      and w = "server (ok_json (JObj []))"]
    id_resolution [where bs = anonymous_session and endPoint = "''display''" and ident = 0 and tv = 0
      and w = "server (ok_json (JObj []))" and m = "''GET''" and imdb = "''tt0411008''" and opt = 0
      and se = 1 and ep = 2 and sub = False]
    id_resolution [where bs = anonymous_session and endPoint = "''display''" and ident = 5 and tv = 7
      and w = "server (ok_json (JObj []))"]
  by (simp add: base_anonymous plain_path_def is_ctl_def)

text \<open>
  Claim C4, as amended. Of the endpoints that take a local and an external ID, only
  \<open>ShowsVideos\<close> refuses two positive IDs: it fails with \<open>errNoSingleIDUsed\<close> and sends
  no request. \<open>ShowsSimilars\<close>, \<open>ShowsCharacters\<close>, \<open>ShowsEpisodes\<close> and \<open>showUpdate\<close>
  then send their request, with the local ID alone.
\<close>

theorem ambiguous_ids:
  assumes "baseURL bs = bsBaseURL" and "plain_path endPoint" and "0 < ident" and "0 < tv"
  shows "ShowsVideos w bs ident tv = ([], Inl errNoSingleIDUsed)
       \<and> emits_one (ShowsSimilars w bs ident tv d) (by_local_id ident)
       \<and> emits_one (ShowsCharacters w bs ident tv) (by_local_id ident)
       \<and> emits_one (ShowsEpisodes w bs ident tv se ep sub) (by_local_id ident)
       \<and> emits_one (showUpdate w bs m endPoint ident tv imdb opt) (by_local_id ident)"
  using assms
  by (simp add: ShowsVideos_both ShowsSimilars_local ShowsCharacters_local ShowsEpisodes_local
        showUpdate_local)

theorem ambiguous_ids_counterexample:
  "emits_one (ShowsSimilars (server (ok_json (JObj []))) anonymous_session 5 5 False)
     (\<lambda>r. sent_params r ''id'' = Some [''5''] \<and> sent_params r ''thetvdb_id'' = None)
   \<and> snd (ShowsSimilars (server (ok_json (JObj []))) anonymous_session 5 5 False) = Inl errNoShowsFound
   \<and> snd (ShowsSimilars (server (ok_json (JObj []))) anonymous_session 5 5 False) \<noteq> Inl errNoSingleIDUsed"
  by code_simp

theorem ambiguous_ids_witness:
  "baseURL anonymous_session = bsBaseURL \<and> plain_path ''archive'' \<and> (0::int) < 5 \<and> (0::int) < 6
   \<and> ShowsVideos (server (ok_json (JObj []))) anonymous_session 5 6 = ([], Inl errNoSingleIDUsed)
   \<and> emits_one (ShowsSimilars (server (ok_json (JObj []))) anonymous_session 5 6 True) (by_local_id 5)
   \<and> emits_one (ShowsCharacters (server (ok_json (JObj []))) anonymous_session 5 6) (by_local_id 5)
   \<and> emits_one (ShowsEpisodes (server (ok_json (JObj []))) anonymous_session 5 6 1 0 False) (by_local_id 5)
   \<and> emits_one (showUpdate (server (ok_json (JObj []))) anonymous_session ''POST'' ''archive'' 5 6 [] 0)
        (by_local_id 5)"
  using ambiguous_ids [where bs = anonymous_session and endPoint = "''archive''" and ident = 5
      and tv = 6 and w = "server (ok_json (JObj []))" and d = True and se = 1 and ep = 0
      and sub = False and m = "''POST''" and imdb = "[]" and opt = 0]
  by (simp add: base_anonymous plain_path_def is_ctl_def)


text \<open>
  The external ID of \<open>ShowsVideos\<close> travels under the key \<open>thetvdb_id\<close> followed by a
  space, as the source spells it, and not under \<open>thetvdb_id\<close>.
\<close>

lemma ShowsVideos_external_key:
  "map (\<lambda>r. RawQuery (Target r)) (fst (ShowsVideos (server (ok_json (JObj []))) anonymous_session 0 7))
     = [''thetvdb_id+=7'']
   \<and> emits_one (ShowsVideos (server (ok_json (JObj []))) anonymous_session 0 7)
        (\<lambda>r. sent_params r ''thetvdb_id '' = Some [''7''] \<and> sent_params r ''thetvdb_id'' = None)"
  by code_simp

subsection \<open>Notes and numeric options\<close>

text \<open>
  Claim C5. For every integer note outside \<open>[1, 5]\<close>, \<open>ShowNote\<close> fails with
  \<open>errInvalidNote\<close> and sends no request. For every note inside \<open>[1, 5]\<close>, every request
  that \<open>ShowNote\<close> sends has the parameter \<open>note\<close> equal to the input, and it sends
  exactly one request when one of the two IDs is positive (none otherwise).
\<close>

theorem note_range:
  "(note < 1 \<or> 5 < note \<longrightarrow> ShowNote w bs a b note = ([], Inl errInvalidNote))
   \<and> (baseURL bs = bsBaseURL \<and> 1 \<le> note \<and> note \<le> 5 \<longrightarrow>
        list_all (\<lambda>r. sent_params r ''note'' = Some [Itoa note]) (fst (ShowNote w bs a b note))
      \<and> length (fst (ShowNote w bs a b note)) = (if 0 < a \<or> 0 < b then 1 else 0))"
proof (intro conjI impI)
  assume "note < 1 \<or> 5 < note"
  then show "ShowNote w bs a b note = ([], Inl errInvalidNote)"
    by (rule ShowNote_invalid)
next
  assume h: "baseURL bs = bsBaseURL \<and> 1 \<le> note \<and> note \<le> 5"
  then have eq: "ShowNote w bs a b note = showUpdate w bs ''POST'' ''note'' a b [] note"
    by (simp add: ShowNote_def)
  from h have pos: "0 < note" by simp
  show "list_all (\<lambda>r. sent_params r ''note'' = Some [Itoa note]) (fst (ShowNote w bs a b note))"
    unfolding eq using h pos by (simp add: showUpdate_note_param)
  have pp: "plain_path ''note''" by (simp add: plain_path_def is_ctl_def)
  show "length (fst (ShowNote w bs a b note)) = (if 0 < a \<or> 0 < b then 1 else 0)"
  proof (cases "0 < a \<or> 0 < b")
    case True
    then show ?thesis
      unfolding eq using h showUpdate_length [OF _ pp, of bs a b "[]"] by simp
  next
    case False
    then have "showUpdate w bs ''POST'' ''note'' a b [] note = ([], Inl errIDNotProperlySet)"
      using h no_id_failures(5) [OF _ _ _ pp, of bs a b] by simp
    with False show ?thesis unfolding eq by simp
  qed
qed

theorem note_range_witness:
  "ShowNote (server (ok_json (JObj []))) anonymous_session 12 0 6 = ([], Inl errInvalidNote)
   \<and> ShowNote (server (ok_json (JObj []))) anonymous_session 12 0 0 = ([], Inl errInvalidNote)
   \<and> baseURL anonymous_session = bsBaseURL
   \<and> list_all (\<lambda>r. sent_params r ''note'' = Some [Itoa 4])
        (fst (ShowNote (server (ok_json (JObj []))) anonymous_session 12 0 4))
   \<and> length (fst (ShowNote (server (ok_json (JObj []))) anonymous_session 12 0 4)) = 1
   \<and> Itoa 4 = ''4''"
  using
    note_range [of 6 "server (ok_json (JObj []))" anonymous_session 12 0]
    note_range [of 0 "server (ok_json (JObj []))" anonymous_session 12 0]
    note_range [of 4 "server (ok_json (JObj []))" anonymous_session 12 0]
  by (simp add: base_anonymous Itoa_def digits.simps digit_char_def)




subsection \<open>Searching shows\<close>




lemma api_url_fields:
  "Path (api_url p\<lparr>RawQuery := q\<rparr>) = p" "RawQuery (api_url p\<lparr>RawQuery := q\<rparr>) = q"
  by (simp_all add: api_url_def)

lemma ShowsSearch_lost_request:
  "baseURL bs = bsBaseURL \<Longrightarrow>
   map (\<lambda>r. (Method r, Path (Target r), RawQuery (Target r)))
     (fst (ShowsSearch w bs ''lost'' ''title'' False)) =
   [(''GET'', ''/shows/search'', ''nbpp=100&order=title&title=lost'')]"
  by (simp add: ShowsSearch_def url_Parse_api plain_path_Cons plain_path_Nil URL_Query_api_url
        fst_doGetShows api_url_fields encode_simps)

lemma ShowsSearch_lost_params:
  "baseURL bs = bsBaseURL \<Longrightarrow>
   emits_one (ShowsSearch w bs ''lost'' ''title'' False)
     (\<lambda>r. sent_params r ''title'' = Some [''lost''] \<and> sent_params r ''nbpp'' = Some [''100'']
        \<and> sent_params r ''order'' = Some [''title''] \<and> sent_params r ''summary'' = None)"
  by (simp add: ShowsSearch_def endpoint_simps ToLower_def lower_char_def upper_letters_def
        lower_letters_def del: Values_Set.simps)

lemma ShowsSearch_result:
  "baseURL bs = bsBaseURL \<Longrightarrow>
   snd (ShowsSearch (server resp) bs query order summary) =
     (case decoded unmarshal_shows resp of
        Inl err \<Rightarrow> Inl err
      | Inr data \<Rightarrow> if Shows data = [] then Inl errNoShowsFound else Inr (Shows data))"
  by (simp add: ShowsSearch_def Let_def url_Parse_api plain_path_Cons plain_path_Nil is_ctl_def
        doGetShows_result [OF server_answers] del: Values_Set.simps)

lemma decoded_lost_body:
  "Body resp = Some (JObj [(''shows'', JArr [JObj [(''id'', JNum 1), (''title'', JStr ''Lost'')]]),
                           (''errors'', JArr [])]) \<Longrightarrow>
   decoded unmarshal_shows resp =
     Inr \<lparr>Shows = [\<lparr>Show_ID = 1, Show_ThetvdbID = 0, Show_ImdbID = [], Show_Title = ''Lost''\<rparr>],
          shows_Errors = []\<rparr>"
  by (simp add: json_simps)

text \<open>
  Claim C8, as amended. \<open>ShowsSearch("lost", "title", false)\<close> sends one GET request for
  the path \<open>/shows/search\<close> with the parameters \<open>title=lost\<close>, \<open>nbpp=100\<close> and
  \<open>order=title\<close>; its query string is \<open>nbpp=100&order=title&title=lost\<close>, because
  \<open>Values.Encode\<close> writes the parameters sorted by key. When the server answers with the
  body \<open>{"shows":[{"id":1,"title":"Lost"}],"errors":[]}\<close>, the call returns exactly one
  show, whose ID is 1.
\<close>

theorem search_lost:
  assumes "baseURL bs = bsBaseURL"
    and "Body resp = Some (JObj [(''shows'', JArr [JObj [(''id'', JNum 1), (''title'', JStr ''Lost'')]]),
                                 (''errors'', JArr [])])"
  shows "map (\<lambda>r. (Method r, Path (Target r), RawQuery (Target r)))
           (fst (ShowsSearch (server resp) bs ''lost'' ''title'' False)) =
         [(''GET'', ''/shows/search'', ''nbpp=100&order=title&title=lost'')]
       \<and> emits_one (ShowsSearch (server resp) bs ''lost'' ''title'' False)
           (\<lambda>r. sent_params r ''title'' = Some [''lost''] \<and> sent_params r ''nbpp'' = Some [''100'']
              \<and> sent_params r ''order'' = Some [''title''] \<and> sent_params r ''summary'' = None)
       \<and> snd (ShowsSearch (server resp) bs ''lost'' ''title'' False) =
           Inr [\<lparr>Show_ID = 1, Show_ThetvdbID = 0, Show_ImdbID = [], Show_Title = ''Lost''\<rparr>]"
proof (intro conjI)
  show "map (\<lambda>r. (Method r, Path (Target r), RawQuery (Target r)))
           (fst (ShowsSearch (server resp) bs ''lost'' ''title'' False)) =
         [(''GET'', ''/shows/search'', ''nbpp=100&order=title&title=lost'')]"
    by (rule ShowsSearch_lost_request [OF assms(1)])
  show "emits_one (ShowsSearch (server resp) bs ''lost'' ''title'' False)
           (\<lambda>r. sent_params r ''title'' = Some [''lost''] \<and> sent_params r ''nbpp'' = Some [''100'']
              \<and> sent_params r ''order'' = Some [''title''] \<and> sent_params r ''summary'' = None)"
    by (rule ShowsSearch_lost_params [OF assms(1)])
  show "snd (ShowsSearch (server resp) bs ''lost'' ''title'' False) =
           Inr [\<lparr>Show_ID = 1, Show_ThetvdbID = 0, Show_ImdbID = [], Show_Title = ''Lost''\<rparr>]"
    by (simp add: ShowsSearch_result [OF assms(1)] decoded_lost_body [OF assms(2)])
qed

theorem search_lost_counterexample:
  "map (\<lambda>r. RawQuery (Target r))
     (fst (ShowsSearch
        (server (ok_json (JObj [(''shows'', JArr [JObj [(''id'', JNum 1), (''title'', JStr ''Lost'')]]),
                                (''errors'', JArr [])])))
        anonymous_session ''lost'' ''title'' False)) = [''nbpp=100&order=title&title=lost'']
   \<and> map (\<lambda>r. RawQuery (Target r))
     (fst (ShowsSearch
        (server (ok_json (JObj [(''shows'', JArr [JObj [(''id'', JNum 1), (''title'', JStr ''Lost'')]]),
                                (''errors'', JArr [])])))
        anonymous_session ''lost'' ''title'' False)) \<noteq> [''title=lost&nbpp=100&order=title'']"
  by code_simp

theorem search_lost_witness:
  "baseURL anonymous_session = bsBaseURL
   \<and> Body (ok_json (JObj [(''shows'', JArr [JObj [(''id'', JNum 1), (''title'', JStr ''Lost'')]]),
                          (''errors'', JArr [])])) =
       Some (JObj [(''shows'', JArr [JObj [(''id'', JNum 1), (''title'', JStr ''Lost'')]]),
                   (''errors'', JArr [])])
   \<and> map (\<lambda>r. (Method r, Path (Target r), RawQuery (Target r)))
        (fst (ShowsSearch
           (server (ok_json (JObj [(''shows'', JArr [JObj [(''id'', JNum 1), (''title'', JStr ''Lost'')]]),
                                   (''errors'', JArr [])])))
           anonymous_session ''lost'' ''title'' False)) =
       [(''GET'', ''/shows/search'', ''nbpp=100&order=title&title=lost'')]
   \<and> snd (ShowsSearch
           (server (ok_json (JObj [(''shows'', JArr [JObj [(''id'', JNum 1), (''title'', JStr ''Lost'')]]),
                                   (''errors'', JArr [])])))
           anonymous_session ''lost'' ''title'' False) =
       Inr [\<lparr>Show_ID = 1, Show_ThetvdbID = 0, Show_ImdbID = [], Show_Title = ''Lost''\<rparr>]"
  using search_lost [of anonymous_session
      "ok_json (JObj [(''shows'', JArr [JObj [(''id'', JNum 1), (''title'', JStr ''Lost'')]]),
                      (''errors'', JArr [])])"]
  by (simp add: base_anonymous ok_json_def)


subsection \<open>Empty and absent results\<close>

text \<open>
  Claim C6, as amended. When the envelope decodes with no service errors and the
  collection is empty, a show listing fails with \<open>errNoShowsFound\<close> ("no shows found"),
  a character listing with \<open>errNoCharactersFound\<close> ("no characters found"), a video
  listing with \<open>errNoVideosFound\<close> ("no videos found"), and an episode listing with the
  episodes' own error; these four are different errors. The similars listing has no
  error of its own: it fails with \<open>errNoShowsFound\<close>, the error of the show listings.
\<close>

theorem nothing_found:
  assumes "baseURL bs = bsBaseURL"
  shows "(decoded unmarshal_shows resp = Inr sh \<and> Shows sh = [] \<longrightarrow>
            snd (doGetShows (server resp) bs u api) = Inl errNoShowsFound)
       \<and> (decoded unmarshal_similars resp = Inr si \<and> Similars si = [] \<longrightarrow>
            snd (doGetSimilars (server resp) bs u) = Inl errNoShowsFound)
       \<and> (decoded unmarshal_characters resp = Inr ch \<and> Characters ch = [] \<and> (0 < ident \<or> 0 < tv) \<longrightarrow>
            snd (ShowsCharacters (server resp) bs ident tv) = Inl errNoCharactersFound)
       \<and> (decoded unmarshal_videos resp = Inr vi \<and> Videos vi = []
            \<and> (0 < ident \<and> \<not> 0 < tv \<or> \<not> 0 < ident \<and> 0 < tv) \<longrightarrow>
            snd (ShowsVideos (server resp) bs ident tv) = Inl errNoVideosFound)
       \<and> (decoded unmarshal_episodes resp = Inr es \<and> Episodes es = [] \<longrightarrow>
            snd (doGetEpisodes (server resp) bs u api) = Inl errNoEpisodesFound)
       \<and> distinct [errNoShowsFound, errNoCharactersFound, errNoVideosFound, errNoEpisodesFound]
       \<and> sentinel_text errNoShowsFound = Some ''no shows found''
       \<and> sentinel_text errNoCharactersFound = Some ''no characters found''
       \<and> sentinel_text errNoVideosFound = Some ''no videos found''"
proof (intro conjI impI)
  assume "decoded unmarshal_shows resp = Inr sh \<and> Shows sh = []"
  then show "snd (doGetShows (server resp) bs u api) = Inl errNoShowsFound"
    by (simp add: doGetShows_result [OF server_answers])
next
  assume "decoded unmarshal_similars resp = Inr si \<and> Similars si = []"
  then show "snd (doGetSimilars (server resp) bs u) = Inl errNoShowsFound"
    by (simp add: doGetSimilars_result [OF server_answers])
next
  assume "decoded unmarshal_characters resp = Inr ch \<and> Characters ch = [] \<and> (0 < ident \<or> 0 < tv)"
  then show "snd (ShowsCharacters (server resp) bs ident tv) = Inl errNoCharactersFound"
    using ShowsCharacters_result [OF server_answers assms, of ident tv resp] by simp
next
  assume "decoded unmarshal_videos resp = Inr vi \<and> Videos vi = []
            \<and> (0 < ident \<and> \<not> 0 < tv \<or> \<not> 0 < ident \<and> 0 < tv)"
  then show "snd (ShowsVideos (server resp) bs ident tv) = Inl errNoVideosFound"
    using ShowsVideos_result [OF server_answers assms, of ident tv resp] by simp
next
  assume "decoded unmarshal_episodes resp = Inr es \<and> Episodes es = []"
  then show "snd (doGetEpisodes (server resp) bs u api) = Inl errNoEpisodesFound"
    by (simp add: doGetEpisodes_result [OF server_answers])
qed (simp_all add: sentinel_text_def)

theorem nothing_found_counterexample:
  "snd (ShowsSimilars (server (ok_json (JObj [(''similars'', JArr []), (''errors'', JArr [])])))
          anonymous_session 1 0 False) = Inl errNoShowsFound
   \<and> snd (ShowsFavorites (server (ok_json (JObj [(''shows'', JArr []), (''errors'', JArr [])])))
          anonymous_session 0) = Inl errNoShowsFound"
  by code_simp

theorem nothing_found_witness:
  "baseURL anonymous_session = bsBaseURL
   \<and> decoded unmarshal_shows (ok_json (JObj [(''errors'', JArr [])])) = Inr \<lparr>Shows = [], shows_Errors = []\<rparr>
   \<and> snd (doGetShows (server (ok_json (JObj [(''errors'', JArr [])]))) anonymous_session
          (api_url ''/shows/favorites'') ''/shows/favorites'') = Inl errNoShowsFound
   \<and> snd (doGetSimilars (server (ok_json (JObj [(''errors'', JArr [])]))) anonymous_session
          (api_url ''/shows/similars'')) = Inl errNoShowsFound
   \<and> snd (ShowsCharacters (server (ok_json (JObj [(''errors'', JArr [])]))) anonymous_session 3 0)
        = Inl errNoCharactersFound
   \<and> snd (ShowsVideos (server (ok_json (JObj [(''errors'', JArr [])]))) anonymous_session 3 0)
        = Inl errNoVideosFound
   \<and> snd (doGetEpisodes (server (ok_json (JObj [(''errors'', JArr [])]))) anonymous_session
          (api_url ''/shows/episodes'') ''/shows/episodes'') = Inl errNoEpisodesFound"
  using nothing_found [where bs = anonymous_session and resp = "ok_json (JObj [(''errors'', JArr [])])"
      and sh = "\<lparr>Shows = [], shows_Errors = []\<rparr>" and si = "\<lparr>Similars = [], similars_Errors = []\<rparr>"
      and ch = "\<lparr>Characters = []\<rparr>" and vi = "\<lparr>Videos = [], videos_Errors = []\<rparr>"
      and es = "\<lparr>Episodes = [], episodes_Errors = []\<rparr>" and ident = 3 and tv = 0
      and u = "api_url ''/shows/favorites''" and api = "''/shows/favorites''"]
    nothing_found [where bs = anonymous_session and resp = "ok_json (JObj [(''errors'', JArr [])])"
      and sh = "\<lparr>Shows = [], shows_Errors = []\<rparr>" and si = "\<lparr>Similars = [], similars_Errors = []\<rparr>"
      and ch = "\<lparr>Characters = []\<rparr>" and vi = "\<lparr>Videos = [], videos_Errors = []\<rparr>"
      and es = "\<lparr>Episodes = [], episodes_Errors = []\<rparr>" and ident = 3 and tv = 0
      and u = "api_url ''/shows/similars''" and api = "''/shows/similars''"]
    nothing_found [where bs = anonymous_session and resp = "ok_json (JObj [(''errors'', JArr [])])"
      and sh = "\<lparr>Shows = [], shows_Errors = []\<rparr>" and si = "\<lparr>Similars = [], similars_Errors = []\<rparr>"
      and ch = "\<lparr>Characters = []\<rparr>" and vi = "\<lparr>Videos = [], videos_Errors = []\<rparr>"
      and es = "\<lparr>Episodes = [], episodes_Errors = []\<rparr>" and ident = 3 and tv = 0
      and u = "api_url ''/shows/episodes''" and api = "''/shows/episodes''"]
  by (simp add: base_anonymous json_simps)




end
